theory Spec2Isabelle
  imports Complex_Main
begin

section \<open>Strings, decimal numerals and the format specification \<open>02d\<close>\<close>

text \<open>
  Python strings are modelled as lists of characters. The characters of the model are
  the 256 code points of Latin-1; on them the regular-expression class \<open>\d\<close> is the
  ten ASCII digits. Python integers are unbounded: \<open>int\<close> and \<open>nat\<close>. The limit some
  interpreters put on the number of digits \<open>int()\<close> converts is a setting of the
  interpreter and is not part of the model.
\<close>

definition is_digit :: "char \<Rightarrow> bool" where
  "is_digit c \<longleftrightarrow> c \<in> set ''0123456789''"

definition digit_val :: "char \<Rightarrow> nat" where
  "digit_val c = of_char c - 48"

definition digit_char :: "nat \<Rightarrow> char" where
  "digit_char d = ''0123456789'' ! d"

text \<open>\<open>int(ds)\<close> for a non-empty string of digits.\<close>

definition int_of_digits :: "string \<Rightarrow> nat" where
  "int_of_digits ds = foldl (\<lambda>a c. a * 10 + digit_val c) 0 ds"

text \<open>\<open>str(n)\<close> for a natural number.\<close>

fun decimal :: "nat \<Rightarrow> string" where
  "decimal n = (if n < 10 then [digit_char n] else decimal (n div 10) @ [digit_char (n mod 10)])"

declare decimal.simps [simp del]

text \<open>
  \<open>format(n, '02d')\<close>: the sign, if any, then the decimal digits, filled with zeros on
  the left up to a total width of two. A number with more digits is printed in full.
\<close>

definition zfill :: "nat \<Rightarrow> string \<Rightarrow> string" where
  "zfill w ds = replicate (w - length ds) (CHR ''0'') @ ds"

definition fmt02d :: "int \<Rightarrow> string" where
  "fmt02d n = (if n < 0 then CHR ''-'' # zfill 1 (decimal (nat (- n)))
               else zfill 2 (decimal (nat n)))"

section \<open>The two ISO 8601 duration formatters of views.py\<close>

text \<open>
  \<open>(\d+)X\<close> tried at the start of \<open>s\<close>: \<open>\d+\<close> is greedy, and giving digits back never
  helps, since the character after a shorter run is a digit and not \<open>X\<close>. The result is
  the group and the rest of the string after \<open>X\<close>.
\<close>

definition match_group :: "char \<Rightarrow> string \<Rightarrow> (string \<times> string) option" where
  "match_group x s =
     (let ds = takeWhile is_digit s; r = dropWhile is_digit s
      in if ds \<noteq> [] \<and> r \<noteq> [] \<and> hd r = x then Some (ds, tl r) else None)"

text \<open>\<open>re.search(r'(\d+)X', s)\<close>: the leftmost position where the pattern matches; group 1.\<close>

fun re_search_group :: "char \<Rightarrow> string \<Rightarrow> string option" where
  "re_search_group x [] = None"
| "re_search_group x (c # cs) =
     (case match_group x (c # cs) of
        Some (ds, r) \<Rightarrow> Some ds
      | None \<Rightarrow> re_search_group x cs)"

text \<open>\<open>int(g.group(1)) if g else 0\<close> and \<open>int(match.group(i) or 0)\<close>.\<close>

definition group_int :: "string option \<Rightarrow> int" where
  "group_int g = (case g of None \<Rightarrow> 0 | Some ds \<Rightarrow> int (int_of_digits ds))"

definition formatear :: "int \<Rightarrow> int \<Rightarrow> int \<Rightarrow> string" where
  "formatear h m s =
     (if h > 0 then fmt02d h @ '':'' @ fmt02d m @ '':'' @ fmt02d s
      else fmt02d m @ '':'' @ fmt02d s)"

definition formatear_duracion :: "string \<Rightarrow> string" where
  "formatear_duracion duracion_iso =
     (if duracion_iso = [] then ''N/A''
      else
        let horas = re_search_group (CHR ''H'') duracion_iso;
            minutos = re_search_group (CHR ''M'') duracion_iso;
            segundos = re_search_group (CHR ''S'') duracion_iso;
            h = group_int horas;
            m = group_int minutos;
            s = group_int segundos
        in formatear h m s)"

text \<open>
  \<open>(?:(\d+)X)?\<close>: an optional group is tried first and skipped when it does not match.
  Every continuation of the pattern is optional too, so the first choice is never undone.
\<close>

definition opt_group :: "char \<Rightarrow> string \<Rightarrow> string option \<times> string" where
  "opt_group x s = (case match_group x s of Some (ds, r) \<Rightarrow> (Some ds, r) | None \<Rightarrow> (None, s))"

text \<open>
  \<open>re.match(r'PT(?:(\d+)H)?(?:(\d+)M)?(?:(\d+)S)?', s)\<close>: anchored at the start only;
  the three groups.
\<close>

definition re_match_pt :: "string \<Rightarrow> (string option \<times> string option \<times> string option) option" where
  "re_match_pt s =
     (case s of
        p # t # r0 \<Rightarrow>
          if p = CHR ''P'' \<and> t = CHR ''T'' then
            (let (h, r1) = opt_group (CHR ''H'') r0;
                 (m, r2) = opt_group (CHR ''M'') r1;
                 (sec, r3) = opt_group (CHR ''S'') r2
             in Some (h, m, sec))
          else None
      | _ \<Rightarrow> None)"

definition formatear_duracion_iso :: "string \<Rightarrow> string" where
  "formatear_duracion_iso duracion_iso =
     (if duracion_iso = [] then ''''
      else
        case re_match_pt duracion_iso of
          None \<Rightarrow> duracion_iso
        | Some (g1, g2, g3) \<Rightarrow>
            let horas = group_int g1;
                minutos = group_int g2;
                segundos = group_int g3
            in formatear horas minutos segundos)"

section \<open>YouTubeVideo.duracion_formateada (models.py)\<close>

text \<open>
  \<open>//\<close> and \<open>%\<close> of Python round towards minus infinity, as \<open>div\<close> and \<open>mod\<close> on
  \<open>int\<close> do.
\<close>

definition duracion_formateada :: "int \<Rightarrow> string" where
  "duracion_formateada duracion_segundos =
     (let horas = duracion_segundos div 3600;
          minutos = (duracion_segundos mod 3600) div 60;
          segundos = duracion_segundos mod 60
      in if horas > 0 then fmt02d horas @ '':'' @ fmt02d minutos @ '':'' @ fmt02d segundos
         else fmt02d minutos @ '':'' @ fmt02d segundos)"

section \<open>Durations as the claims describe them\<close>

text \<open>
  The notions the statements about the formatters use: a field of exactly two digits, a
  field filled with zeros up to at least two digits, and the strings
  \<open>PT[hH][mM][sS]\<close>, each component a non-empty run of digits or absent.
\<close>

definition two_digits :: "nat \<Rightarrow> string" where
  "two_digits k = [digit_char (k div 10), digit_char (k mod 10)]"

definition padded_field :: "nat \<Rightarrow> string" where
  "padded_field k = (if k < 100 then two_digits k else decimal k)"

definition digits :: "string \<Rightarrow> bool" where
  "digits ds \<longleftrightarrow> ds \<noteq> [] \<and> list_all is_digit ds"

definition valid_component :: "string option \<Rightarrow> bool" where
  "valid_component g = (case g of None \<Rightarrow> True | Some ds \<Rightarrow> digits ds)"

definition component :: "string option \<Rightarrow> char \<Rightarrow> string" where
  "component g x = (case g of None \<Rightarrow> [] | Some ds \<Rightarrow> ds @ [x])"

definition iso_duration :: "string option \<Rightarrow> string option \<Rightarrow> string option \<Rightarrow> string" where
  "iso_duration gh gm gs =
     ''PT'' @ component gh (CHR ''H'') @ component gm (CHR ''M'') @ component gs (CHR ''S'')"

definition component_value :: "string option \<Rightarrow> nat" where
  "component_value g = (case g of None \<Rightarrow> 0 | Some ds \<Rightarrow> int_of_digits ds)"

section \<open>Python values, exceptions and conversions\<close>

text \<open>
  Exceptions are values. Only the class matters to the handlers of the code; the text of
  an exception, \<open>str(e)\<close>, is kept symbolic (see \<open>detail\<close> below). \<open>Timeout\<close> and
  \<open>RequestException\<close> stand for these classes of the library \<open>requests\<close> with their
  subclasses, \<open>RequestException\<close> for those that are not a \<open>Timeout\<close>.
\<close>

datatype exc =
    Timeout | RequestException | DoesNotExist | MultipleObjectsReturned | IntegrityError
  | TypeError | ValueError | KeyError | IndexError | AttributeError
  | OverflowError | ZeroDivisionError | OSError | OtherError string

text \<open>
  The scalar values of a JSON document and of a template variable. Floating-point
  numbers and containers are not among them.
\<close>

datatype scalar = PNone | PBool bool | PInt int | PStr string

type_synonym py_dict = "string \<rightharpoonup> scalar"

text \<open>\<open>bool(v)\<close>, the test of \<open>if v\<close> and \<open>not v\<close>.\<close>

fun truthy :: "scalar \<Rightarrow> bool" where
  "truthy PNone = False"
| "truthy (PBool b) = b"
| "truthy (PInt n) = (n \<noteq> 0)"
| "truthy (PStr s) = (s \<noteq> [])"

definition str_int :: "int \<Rightarrow> string" where
  "str_int n = (if n < 0 then CHR ''-'' # decimal (nat (- n)) else decimal (nat n))"

text \<open>\<open>str(v)\<close>, which is also what a text column stores for a value that is not \<open>None\<close>.\<close>

fun py_str :: "scalar \<Rightarrow> string" where
  "py_str PNone = ''None''"
| "py_str (PBool b) = (if b then ''True'' else ''False'')"
| "py_str (PInt n) = str_int n"
| "py_str (PStr s) = s"

text \<open>\<open>d.get(k, default)\<close> on a dictionary of scalars.\<close>

definition dict_get :: "py_dict \<Rightarrow> string \<Rightarrow> scalar \<Rightarrow> scalar" where
  "dict_get d k dflt = (case d k of None \<Rightarrow> dflt | Some v \<Rightarrow> v)"

text \<open>
  The characters \<open>str.split()\<close> treats as white space, among the code points below 256.
\<close>

definition is_space :: "char \<Rightarrow> bool" where
  "is_space c \<longleftrightarrow>
     (let n = (of_char c :: nat)
      in (9 \<le> n \<and> n \<le> 13) \<or> (28 \<le> n \<and> n \<le> 32) \<or> n = 133 \<or> n = 160)"

text \<open>
  The characters \<open>int()\<close> removes around a literal: the white space of ASCII in the
  narrow sense (tab to carriage return, and the space) and the white space from code
  point 128 on. The separators U+001C to U+001F stay, and make the literal invalid.
\<close>

definition is_int_space :: "char \<Rightarrow> bool" where
  "is_int_space c \<longleftrightarrow>
     (let n = (of_char c :: nat)
      in (9 \<le> n \<and> n \<le> 13) \<or> n = 32 \<or> n = 133 \<or> n = 160)"

definition strip_int :: "string \<Rightarrow> string" where
  "strip_int s = rev (dropWhile is_int_space (rev (dropWhile is_int_space s)))"

text \<open>
  The digits of an integer literal as \<open>int()\<close> accepts them in base ten: digits, with
  single underscores between digits.
\<close>

fun valid_int_body :: "string \<Rightarrow> bool" where
  "valid_int_body [] = False"
| "valid_int_body [c] = is_digit c"
| "valid_int_body (c # d # r) =
     (is_digit c \<and> (if d = CHR ''_'' then valid_int_body r else valid_int_body (d # r)))"

definition int_of_string :: "string \<Rightarrow> int option" where
  "int_of_string s =
     (let t = strip_int s;
          (neg, body) = (case t of
                           c # r \<Rightarrow> if c = CHR ''-'' then (True, r)
                                    else if c = CHR ''+'' then (False, r)
                                    else (False, t)
                         | [] \<Rightarrow> (False, t))
      in if valid_int_body body
         then (let n = int (int_of_digits (filter (\<lambda>c. c \<noteq> CHR ''_'') body))
               in Some (if neg then - n else n))
         else None)"

text \<open>\<open>int(v)\<close>.\<close>

fun py_int :: "scalar \<Rightarrow> exc + int" where
  "py_int PNone = Inl TypeError"
| "py_int (PBool b) = Inr (if b then 1 else 0)"
| "py_int (PInt n) = Inr n"
| "py_int (PStr s) = (case int_of_string s of None \<Rightarrow> Inl ValueError | Some n \<Rightarrow> Inr n)"

text \<open>
  A text of a response or of a column: a literal, a value taken from a response, or a
  literal followed by \<open>str(e)\<close> for a caught exception \<open>e\<close>.
\<close>

datatype detail = Lit string | ValueOf scalar | StrOf string exc

section \<open>Date and time\<close>

text \<open>
  A \<open>datetime\<close> is the number of microseconds since 0001-01-01 00:00:00, the smallest
  one; the largest is the last microsecond of the year 9999, day 3652059 of the
  calendar. All instants are on one time line: time zones are not modelled.
\<close>

definition datetime_end :: int where
  "datetime_end = 3652059 * 86400 * 1000000"

text \<open>
  \<open>timedelta(seconds=v)\<close>, in microseconds: a number is required, and the number of
  days must not exceed 999999999 in magnitude.
\<close>

fun timedelta_seconds :: "scalar \<Rightarrow> exc + int" where
  "timedelta_seconds PNone = Inl TypeError"
| "timedelta_seconds (PStr s) = Inl TypeError"
| "timedelta_seconds (PBool b) = Inr (if b then 1000000 else 0)"
| "timedelta_seconds (PInt n) =
     (if - 999999999 \<le> n div 86400 \<and> n div 86400 \<le> 999999999
      then Inr (n * 1000000) else Inl OverflowError)"

text \<open>\<open>t + delta\<close> for a \<open>datetime\<close> and a \<open>timedelta\<close>.\<close>

definition datetime_add :: "int \<Rightarrow> int \<Rightarrow> exc + int" where
  "datetime_add t delta =
     (if 0 \<le> t + delta \<and> t + delta < datetime_end then Inr (t + delta) else Inl OverflowError)"

text \<open>\<open>datetime.now() + timedelta(seconds=expires_in)\<close>.\<close>

definition expiry :: "int \<Rightarrow> scalar \<Rightarrow> exc + int" where
  "expiry now expires_in =
     (case timedelta_seconds expires_in of
        Inl e \<Rightarrow> Inl e
      | Inr delta \<Rightarrow> datetime_add now delta)"

section \<open>The template filter divide (video_filters.py)\<close>

text \<open>
  The value of \<open>a / b\<close> on integers is the floating-point number nearest to the
  quotient; \<open>FloatNear q\<close> stands for the one nearest to the rational \<open>q\<close>. The division
  raises \<open>OverflowError\<close> when that number would lie beyond the largest one,
  \<open>2^1024 - 2^971\<close>; with rounding to nearest this is from \<open>2^1024 - 2^970\<close> on.
\<close>

datatype number = IntNum int | FloatNear rat

definition true_div :: "int \<Rightarrow> int \<Rightarrow> exc + number" where
  "true_div a b =
     (if b = 0 then Inl ZeroDivisionError
      else if (2 ^ 1024 - 2 ^ 970) * \<bar>b\<bar> \<le> \<bar>a\<bar> then Inl OverflowError
      else Inr (FloatNear (of_int a / of_int b)))"

definition divide_filter :: "scalar \<Rightarrow> scalar \<Rightarrow> exc + number" where
  "divide_filter v arg =
     (let r = (case py_int v of
                 Inl e \<Rightarrow> Inl e
               | Inr a \<Rightarrow> (case py_int arg of
                              Inl e \<Rightarrow> Inl e
                            | Inr b \<Rightarrow> true_div a b))
      in case r of
           Inl e \<Rightarrow> if e \<in> {ValueError, ZeroDivisionError, TypeError} then Inr (IntNum 0) else Inl e
         | Inr q \<Rightarrow> Inr q)"

section \<open>The database\<close>

text \<open>
  A table is the list of its rows; a row is a record of the columns the views read or
  write. Columns that no modelled function touches and the automatic time stamps
  (\<open>auto_now\<close>, \<open>auto_now_add\<close>) are left out. Two models may not share a field name
  in a theory, so the fields that would clash carry the initials of their model.
\<close>

record django_user =
  du_id :: nat
  username :: string
  first_name :: string

record youtube_account =
  ya_id :: nat
  ya_user :: nat
  youtube_id :: string
  nombre_canal :: string
  ya_email :: string
  foto_perfil :: string
  access_token :: string
  refresh_token :: string
  token_expira :: "int option"
  suscriptores :: int
  videos_publicados :: int
  vistas_totales :: int
  url_canal :: string

record video_subido =
  vs_id :: nat
  vs_youtube_account :: nat
  youtube_video_id :: string
  vs_titulo :: string
  estado :: string
  archivo_path :: string
  archivo_size :: int
  vs_descripcion :: string
  vs_etiquetas :: string
  categoria_id :: string
  privacidad :: string
  inicio_subida :: "int option"
  fin_subida :: "int option"
  mensaje_error :: detail

record video_guardado =
  vg_id :: nat
  video_id :: string
  usuario :: nat
  vg_titulo :: string
  vg_descripcion :: string
  canal_nombre :: string
  canal_id :: string
  url_thumbnail :: string
  fecha_publicacion :: "int option"
  vistas :: int
  likes :: int
  comentarios :: int
  duracion :: string
  categoria :: string
  vg_etiquetas :: string

record database =
  users :: "django_user list"
  accounts :: "youtube_account list"
  videos_subidos :: "video_subido list"
  videos_guardados :: "video_guardado list"

text \<open>The primary key of a new row: greater than every key of the table.\<close>

definition fresh_id :: "nat list \<Rightarrow> nat" where
  "fresh_id ids = Suc (fold max ids 0)"

text \<open>\<open>Model.objects.get(...)\<close> on the rows that satisfy the condition.\<close>

definition objects_get :: "('a \<Rightarrow> bool) \<Rightarrow> 'a list \<Rightarrow> exc + 'a" where
  "objects_get p rows =
     (case filter p rows of
        [] \<Rightarrow> Inl DoesNotExist
      | [r] \<Rightarrow> Inr r
      | _ \<Rightarrow> Inl MultipleObjectsReturned)"

text \<open>
  The settings module is not among the sources. The database is taken to be SQLite, the
  one of a new Django project: every integer column, \<open>IntegerField\<close> and
  \<open>BigIntegerField\<close> alike, holds the integers of 64 bits, and binding any other value
  to a statement raises \<open>OverflowError\<close> before the statement runs; a text column holds a
  string of any length.
\<close>

definition int64 :: "int \<Rightarrow> bool" where
  "int64 n \<longleftrightarrow> - (2 ^ 63) \<le> n \<and> n < 2 ^ 63"

text \<open>The integer columns of \<open>YouTubeAccount\<close>.\<close>

definition account_fits :: "youtube_account \<Rightarrow> bool" where
  "account_fits a \<longleftrightarrow>
     int64 (suscriptores a) \<and> int64 (videos_publicados a) \<and> int64 (vistas_totales a)"

text \<open>
  \<open>youtube_account.save()\<close> for an object loaded from the table: the row with its
  primary key is overwritten with the fields of the object.
\<close>

definition save_account :: "youtube_account \<Rightarrow> database \<Rightarrow> exc + database" where
  "save_account a db =
     (if \<not> account_fits a then Inl OverflowError
      else Inr (db\<lparr>accounts := map (\<lambda>r. if ya_id r = ya_id a then a else r) (accounts db)\<rparr>))"

section \<open>YouTubeAccount.esta_autenticado (models.py)\<close>

text \<open>
  \<open>now\<close> is the value of \<open>timezone.now()\<close>. A \<open>datetime\<close> is never false, so
  \<open>not self.token_expira\<close> holds for \<open>None\<close> only.
\<close>

definition esta_autenticado :: "int \<Rightarrow> youtube_account \<Rightarrow> bool" where
  "esta_autenticado now a =
     (if token_expira a = None then False
      else now < the (token_expira a))"

section \<open>The OAuth callback (views.py, youtube_callback)\<close>

text \<open>
  What the view reads from outside is an argument of the model: the parameters of the
  request, the outcome of each HTTP call (an exception, or the decoded JSON document)
  and the clock. The token response is a dictionary of scalars. The documents of the
  user-info and channel calls are typed after the API: a key is absent (\<open>None\<close>) or
  carries a value of the type the API documents.
\<close>

record callback_request =
  get_code :: "string option"
  get_error :: "string option"
  get_error_description :: "string option"
  request_user :: "nat option"

record channel_snippet =
  sn_title :: "string option"
  sn_thumbnails :: "(string \<rightharpoonup> (string \<rightharpoonup> string)) option"

record channel_item =
  ch_id :: "string option"
  ch_snippet :: "channel_snippet option"
  ch_statistics :: "py_dict option"

record channels_data =
  cd_error :: "(string \<rightharpoonup> string) option"
  cd_items :: "channel_item list option"

record callback_env =
  token_http :: "exc + py_dict"
  userinfo_http :: "exc + (string \<rightharpoonup> string)"
  channels_http :: "exc + channels_data"
  clock :: int
  clock_stamp :: string

datatype response = ErrorPage detail detail | RedirectTo string

record callback_result =
  cb_response :: response
  cb_db :: database
  cb_login :: "nat option"
  cb_session_account :: "nat option"

text \<open>\<open>v[:20]\<close> inside a \<open>print\<close>: a string can be sliced, the other scalars raise.\<close>

fun slice_check :: "scalar \<Rightarrow> exc option" where
  "slice_check (PStr s) = None"
| "slice_check v = Some TypeError"

text \<open>The three handlers around the token exchange (PASO 2).\<close>

definition token_handler :: "exc \<Rightarrow> response" where
  "token_handler e =
     (if e = Timeout then
        ErrorPage (Lit (''Timeout de conexi'' @ [CHR 0xF3] @ ''n''))
                  (Lit (''Google no respondi'' @ [CHR 0xF3] @ '' a tiempo. Intenta nuevamente.''))
      else if e = RequestException then
        ErrorPage (Lit (''Error de conexi'' @ [CHR 0xF3] @ ''n''))
                  (StrOf ''No se pudo conectar con Google: '' e)
      else
        ErrorPage (Lit ''Error inesperado'')
                  (StrOf (''Ocurri'' @ [CHR 0xF3] @ '' un error: '') e))"

text \<open>
  PASO 2: the code is exchanged for tokens. The result is an error page, or the access
  token, the refresh token as the response has it and the time of expiry.
\<close>

definition exchange_code :: "exc + py_dict \<Rightarrow> int \<Rightarrow> response + (string \<times> scalar \<times> int)" where
  "exchange_code http t_now =
     (case http of
        Inl e \<Rightarrow> Inl (token_handler e)
      | Inr token_response \<Rightarrow>
          if token_response ''error'' \<noteq> None then
            Inl (ErrorPage (Lit ''Error al obtener tokens de acceso'')
                   (ValueOf (dict_get token_response ''error_description''
                             (PStr ''Error desconocido al obtener tokens''))))
          else
            let access_token = dict_get token_response ''access_token'' PNone;
                refresh_token = dict_get token_response ''refresh_token'' (PStr []);
                expires_in = dict_get token_response ''expires_in'' (PInt 3600)
            in if \<not> truthy access_token then
                 Inl (ErrorPage (Lit ''Error en la respuesta de Google'')
                        (Lit (''No se recibi'' @ [CHR 0xF3] @ '' token de acceso v''
                              @ [CHR 0xE1] @ ''lido.'')))
               else if slice_check access_token \<noteq> None then
                 Inl (token_handler TypeError)
               else if truthy refresh_token \<and> slice_check refresh_token \<noteq> None then
                 Inl (token_handler TypeError)
               else
                 (case expiry t_now expires_in of
                    Inl e \<Rightarrow> Inl (token_handler e)
                  | Inr expira \<Rightarrow> Inr (py_str access_token, refresh_token, expira)))"

text \<open>PASO 3.1: the e-mail address; every failure leaves it empty.\<close>

definition fetch_email :: "exc + (string \<rightharpoonup> string) \<Rightarrow> string" where
  "fetch_email http =
     (case http of
        Inl e \<Rightarrow> []
      | Inr user_data \<Rightarrow>
          if user_data ''error'' = None
          then (case user_data ''email'' of None \<Rightarrow> [] | Some m \<Rightarrow> m)
          else [])"

record channel_info =
  channel_id :: string
  channel_name :: string
  channel_thumbnail :: string
  subscribers :: int
  video_count :: int
  view_count :: int

text \<open>\<open>try: n = int(stats.get(k, 0))\<close> with \<open>except (ValueError, TypeError): n = 0\<close>.\<close>

definition int_or_zero :: "py_dict \<Rightarrow> string \<Rightarrow> int" where
  "int_or_zero stats k =
     (case py_int (dict_get stats k (PInt 0)) of
        Inl e \<Rightarrow> 0
      | Inr n \<Rightarrow> n)"

text \<open>\<open>thumbnails.get(size, {}).get('url', dflt)\<close>.\<close>

definition thumbnail_url :: "(string \<rightharpoonup> (string \<rightharpoonup> string)) \<Rightarrow> string \<Rightarrow> string \<Rightarrow> string" where
  "thumbnail_url thumbnails sz dflt =
     (case thumbnails sz of
        None \<Rightarrow> dflt
      | Some t \<Rightarrow> (case t ''url'' of None \<Rightarrow> dflt | Some u \<Rightarrow> u))"

definition channel_handler :: "exc \<Rightarrow> response" where
  "channel_handler e =
     (if e = Timeout then
        ErrorPage (Lit (''Timeout de conexi'' @ [CHR 0xF3] @ ''n''))
                  (Lit (''YouTube no respondi'' @ [CHR 0xF3]
                        @ '' a tiempo al solicitar informaci'' @ [CHR 0xF3] @ ''n del canal.''))
      else
        ErrorPage (Lit (''Error al procesar informaci'' @ [CHR 0xF3] @ ''n del canal''))
                  (StrOf (''Ocurri'' @ [CHR 0xF3] @ '' un error inesperado: '') e))"

text \<open>PASO 3.2: the channel of the user.\<close>

definition fetch_channel :: "exc + channels_data \<Rightarrow> response + channel_info" where
  "fetch_channel http =
     (case http of
        Inl e \<Rightarrow> Inl (channel_handler e)
      | Inr data \<Rightarrow>
          (case cd_error data of
             Some err \<Rightarrow>
               Inl (ErrorPage (Lit ''Error al obtener datos del canal de YouTube'')
                      (Lit (case err ''message'' of
                              None \<Rightarrow> ''Error desconocido al obtener canal''
                            | Some m \<Rightarrow> m)))
           | None \<Rightarrow>
               (case cd_items data of
                  Some (channel # rest) \<Rightarrow>
                    (case ch_id channel of
                       None \<Rightarrow> Inl (channel_handler KeyError)
                     | Some cid \<Rightarrow>
                         let title = (case ch_snippet channel of None \<Rightarrow> None | Some sn \<Rightarrow> sn_title sn);
                             thumbnails = (case ch_snippet channel of
                                             None \<Rightarrow> Map.empty
                                           | Some sn \<Rightarrow> (case sn_thumbnails sn of
                                                           None \<Rightarrow> Map.empty | Some th \<Rightarrow> th));
                             stats = (case ch_statistics channel of None \<Rightarrow> Map.empty | Some st \<Rightarrow> st)
                         in Inr \<lparr> channel_id = cid,
                                  channel_name = (case title of None \<Rightarrow> ''Mi Canal de YouTube''
                                                  | Some t \<Rightarrow> t),
                                  channel_thumbnail =
                                    thumbnail_url thumbnails ''high''
                                      (thumbnail_url thumbnails ''medium''
                                         (thumbnail_url thumbnails ''default'' [])),
                                  subscribers = int_or_zero stats ''subscriberCount'',
                                  video_count = int_or_zero stats ''videoCount'',
                                  view_count = int_or_zero stats ''viewCount'' \<rparr>)
                | _ \<Rightarrow>
                    Inl (ErrorPage (Lit (''No se encontr'' @ [CHR 0xF3] @ '' canal de YouTube''))
                           (Lit ''Esta cuenta de Google no tiene un canal de YouTube asociado.'')))))"

text \<open>
  The loop that looks for a free user name: at most one hundred rounds, then the name
  built from the clock.
\<close>

function unique_username :: "string list \<Rightarrow> string \<Rightarrow> string \<Rightarrow> string \<Rightarrow> nat \<Rightarrow> string" where
  "unique_username taken original_username stamp uname counter =
     (if uname \<in> set taken then
        (if counter + 1 > 100 then ''youtube_user_'' @ stamp
         else unique_username taken original_username stamp
                (original_username @ ''_'' @ decimal counter) (counter + 1))
      else uname)"
  by pat_completeness auto
termination
  by (relation "measure (\<lambda>(taken, original_username, stamp, uname, counter). 101 - counter)") auto

declare unique_username.simps [simp del]

text \<open>\<open>channel_name.split()[0] if channel_name else ''\<close>.\<close>

definition first_word :: "string \<Rightarrow> exc + string" where
  "first_word s =
     (if s = [] then Inr []
      else (let w = takeWhile (\<lambda>c. \<not> is_space c) (dropWhile is_space s)
            in if w = [] then Inl IndexError else Inr w))"

definition db_handler :: "exc \<Rightarrow> response" where
  "db_handler e =
     ErrorPage (Lit (''Error al guardar informaci'' @ [CHR 0xF3] @ ''n''))
               (StrOf (''Ocurri'' @ [CHR 0xF3] @ '' un error al guardar los datos: '') e)"

definition db_failure :: "exc \<Rightarrow> database \<Rightarrow> callback_result" where
  "db_failure e db =
     \<lparr> cb_response = db_handler e, cb_db = db, cb_login = None, cb_session_account = None \<rparr>"

text \<open>PASOS 5 to 7: log the user in when nobody is, remember the account, redirect.\<close>

definition finish_login :: "callback_request \<Rightarrow> database \<Rightarrow> nat \<Rightarrow> nat \<Rightarrow> callback_result" where
  "finish_login request db django_user_id account_id =
     \<lparr> cb_response = RedirectTo ''youtube_dashboard'',
       cb_db = db,
       cb_login = (if request_user request = None then Some django_user_id else None),
       cb_session_account = Some account_id \<rparr>"

text \<open>
  \<open>YouTubeAccount.objects.create(...)\<close>: the counts must fit their columns, the user
  may have one account only, a text column refuses \<open>None\<close>, and the signal
  \<open>crear_url_canal\<close> fills the URL of the channel of a new row.
\<close>

definition create_account ::
  "callback_request \<Rightarrow> database \<Rightarrow> nat \<Rightarrow> string \<Rightarrow> scalar \<Rightarrow> int \<Rightarrow> string \<Rightarrow> channel_info
     \<Rightarrow> callback_result" where
  "create_account request db django_user_id token rtoken expira user_email info =
     (if \<not> (int64 (subscribers info) \<and> int64 (video_count info) \<and> int64 (view_count info))
      then db_failure OverflowError db
      else if list_ex (\<lambda>a. ya_user a = django_user_id \<or> youtube_id a = channel_id info)
                (accounts db)
              \<or> rtoken = PNone
      then db_failure IntegrityError db
      else
        let new_id = fresh_id (map ya_id (accounts db));
            account = \<lparr> ya_id = new_id,
                        ya_user = django_user_id,
                        youtube_id = channel_id info,
                        nombre_canal = channel_name info,
                        ya_email = user_email,
                        foto_perfil = channel_thumbnail info,
                        access_token = token,
                        refresh_token = py_str rtoken,
                        token_expira = Some expira,
                        suscriptores = subscribers info,
                        videos_publicados = video_count info,
                        vistas_totales = view_count info,
                        url_canal = ''https://www.youtube.com/channel/'' @ channel_id info \<rparr>
        in finish_login request (db\<lparr>accounts := accounts db @ [account]\<rparr>) django_user_id new_id)"

text \<open>PASO 4: the account of the channel is updated, or created with its user.\<close>

definition store_account ::
  "callback_request \<Rightarrow> string \<Rightarrow> database \<Rightarrow> string \<Rightarrow> scalar \<Rightarrow> int \<Rightarrow> string \<Rightarrow> channel_info
     \<Rightarrow> callback_result" where
  "store_account request stamp db token rtoken expira user_email info =
     (case objects_get (\<lambda>a. youtube_id a = channel_id info) (accounts db) of
        Inr account \<Rightarrow>
          let account' = account
                \<lparr> access_token := token,
                  refresh_token := (if truthy rtoken then py_str rtoken else refresh_token account),
                  token_expira := Some expira,
                  nombre_canal := channel_name info,
                  ya_email := (if user_email \<noteq> [] then user_email else ya_email account),
                  foto_perfil := channel_thumbnail info,
                  suscriptores := subscribers info,
                  videos_publicados := video_count info,
                  vistas_totales := view_count info \<rparr>
          in (case save_account account' db of
                Inl e \<Rightarrow> db_failure e db
              | Inr db' \<Rightarrow> finish_login request db' (ya_user account) (ya_id account))
      | Inl e \<Rightarrow>
          if e \<noteq> DoesNotExist then db_failure e db
          else
            (case request_user request of
               Some uid \<Rightarrow> create_account request db uid token rtoken expira user_email info
             | None \<Rightarrow>
                 let taken = map username (users db);
                     original_username = take 30 (''youtube_'' @ channel_id info);
                     uname = unique_username taken original_username stamp original_username 1
                 in (case first_word (channel_name info) of
                       Inl e \<Rightarrow> db_failure e db
                     | Inr fname \<Rightarrow>
                         if uname \<in> set taken then db_failure IntegrityError db
                         else
                           let uid = fresh_id (map du_id (users db));
                               db1 = db\<lparr>users := users db
                                        @ [\<lparr> du_id = uid, username = uname, first_name = fname \<rparr>]\<rparr>
                           in create_account request db1 uid token rtoken expira user_email info)))"

definition early_exit :: "response \<Rightarrow> database \<Rightarrow> callback_result" where
  "early_exit r db = \<lparr> cb_response = r, cb_db = db, cb_login = None, cb_session_account = None \<rparr>"

definition youtube_callback :: "callback_request \<Rightarrow> callback_env \<Rightarrow> database \<Rightarrow> callback_result" where
  "youtube_callback request env db =
     (if get_error request \<noteq> None \<and> get_error request \<noteq> Some [] then
        early_exit
          (ErrorPage (Lit (''Error de autorizaci'' @ [CHR 0xF3] @ ''n: '' @ the (get_error request)))
             (Lit (case get_error_description request of
                     None \<Rightarrow> ''Error desconocido'' | Some d \<Rightarrow> d))) db
      else if get_code request = None \<or> get_code request = Some [] then
        early_exit
          (ErrorPage (Lit (''No se recibi'' @ [CHR 0xF3] @ '' c'' @ [CHR 0xF3]
                           @ ''digo de autorizaci'' @ [CHR 0xF3] @ ''n''))
             (Lit (''El usuario cancel'' @ [CHR 0xF3] @ '' la autorizaci'' @ [CHR 0xF3]
                   @ ''n o hubo un error en el proceso.''))) db
      else
        (case exchange_code (token_http env) (clock env) of
           Inl r \<Rightarrow> early_exit r db
         | Inr (token, rtoken, expira) \<Rightarrow>
             let user_email = fetch_email (userinfo_http env)
             in (case fetch_channel (channels_http env) of
                   Inl r \<Rightarrow> early_exit r db
                 | Inr info \<Rightarrow>
                     store_account request (clock_stamp env) db token rtoken expira user_email info)))"

section \<open>Refreshing the token (views.py)\<close>

text \<open>
  \<open>refresh_youtube_token\<close> is behind \<open>login_required\<close>: the request has a user. The
  JSON response is a record of its keys and the HTTP status; \<open>rr_expira_en\<close> is the
  instant the response prints. \<open>save()\<close> raises for a count outside its column and,
  once the values are bound, for an access token that is \<open>None\<close>.
\<close>

record refresh_response =
  rr_status :: nat
  rr_success :: bool
  rr_error :: "detail option"
  rr_needs_reauth :: bool
  rr_expira_en :: "int option"

definition refresh_failure :: "nat \<Rightarrow> detail \<Rightarrow> bool \<Rightarrow> refresh_response" where
  "refresh_failure st err reauth =
     \<lparr> rr_status = st, rr_success = False, rr_error = Some err, rr_needs_reauth = reauth,
       rr_expira_en = None \<rparr>"

definition refresh_youtube_token ::
  "nat \<Rightarrow> exc + py_dict \<Rightarrow> int \<Rightarrow> database \<Rightarrow> refresh_response \<times> database" where
  "refresh_youtube_token user_id http t_now db =
     (case objects_get (\<lambda>a. ya_user a = user_id) (accounts db) of
        Inl e \<Rightarrow>
          if e = DoesNotExist
          then (refresh_failure 400 (Lit ''No hay cuenta YouTube vinculada'') False, db)
          else (refresh_failure 500 (StrOf ''Error inesperado: '' e) False, db)
      | Inr youtube_account \<Rightarrow>
          if refresh_token youtube_account = [] then
            (refresh_failure 401
               (Lit ''No se puede refrescar el token. Reautentica con YouTube.'') True, db)
          else
            (case http of
               Inl e \<Rightarrow> (refresh_failure 500 (StrOf ''Error inesperado: '' e) False, db)
             | Inr token_response \<Rightarrow>
                 if token_response ''error'' \<noteq> None then
                   (refresh_failure 401
                      (Lit ''Error al refrescar token. Reautentica con YouTube.'') True, db)
                 else
                   let new_token = dict_get token_response ''access_token'' PNone;
                       expires_in = dict_get token_response ''expires_in'' (PInt 3600)
                   in (case expiry t_now expires_in of
                         Inl e \<Rightarrow> (refresh_failure 500 (StrOf ''Error inesperado: '' e) False, db)
                       | Inr expira \<Rightarrow>
                           (case save_account
                                   (youtube_account\<lparr>access_token := py_str new_token,
                                                    token_expira := Some expira\<rparr>) db of
                              Inl e \<Rightarrow>
                                (refresh_failure 500 (StrOf ''Error inesperado: '' e) False, db)
                            | Inr db' \<Rightarrow>
                                if new_token = PNone then
                                  (refresh_failure 500
                                     (StrOf ''Error inesperado: '' IntegrityError) False, db)
                                else
                                  (\<lparr> rr_status = 200, rr_success = True, rr_error = None,
                                     rr_needs_reauth = False, rr_expira_en = Some expira \<rparr>,
                                   db')))))"

text \<open>
  \<open>_refresh_youtube_token_internal\<close> works on the account object it is given, which
  its callers have just loaded from the table and do not use again after a failure. It
  returns the dictionary (\<open>success\<close> and \<open>error\<close>) and the database.
\<close>

record internal_result =
  ir_success :: bool
  ir_error :: "detail option"

definition refresh_youtube_token_internal ::
  "youtube_account \<Rightarrow> exc + py_dict \<Rightarrow> int \<Rightarrow> database \<Rightarrow> internal_result \<times> database" where
  "refresh_youtube_token_internal youtube_account http t_now db =
     (if refresh_token youtube_account = [] then
        (\<lparr> ir_success = False, ir_error = Some (Lit ''No hay refresh token'') \<rparr>, db)
      else
        (case http of
           Inl e \<Rightarrow> (\<lparr> ir_success = False, ir_error = Some (StrOf [] e) \<rparr>, db)
         | Inr token_response \<Rightarrow>
             if token_response ''error'' \<noteq> None then
               (\<lparr> ir_success = False,
                  ir_error = Some (ValueOf (dict_get token_response ''error_description'' PNone)) \<rparr>,
                db)
             else
               let new_token = dict_get token_response ''access_token'' PNone;
                   expires_in = dict_get token_response ''expires_in'' (PInt 3600)
               in (case expiry t_now expires_in of
                     Inl e \<Rightarrow> (\<lparr> ir_success = False, ir_error = Some (StrOf [] e) \<rparr>, db)
                   | Inr expira \<Rightarrow>
                       (case save_account
                               (youtube_account\<lparr>access_token := py_str new_token,
                                                token_expira := Some expira\<rparr>) db of
                          Inl e \<Rightarrow> (\<lparr> ir_success = False, ir_error = Some (StrOf [] e) \<rparr>, db)
                        | Inr db' \<Rightarrow>
                            if new_token = PNone then
                              (\<lparr> ir_success = False, ir_error = Some (StrOf [] IntegrityError) \<rparr>,
                               db)
                            else (\<lparr> ir_success = True, ir_error = None \<rparr>, db')))))"

section \<open>Token responses as the claims describe them\<close>

text \<open>An error result of the callback is the error page.\<close>

definition is_error_page :: "response \<Rightarrow> bool" where
  "is_error_page r = (case r of ErrorPage e d \<Rightarrow> True | RedirectTo u \<Rightarrow> False)"



text \<open>Sample values: an account with its user, responses of the APIs, a request.\<close>

definition example_account :: youtube_account where
  "example_account =
     \<lparr> ya_id = 1, ya_user = 1, youtube_id = ''UC1'', nombre_canal = ''Canal'', ya_email = [],
       foto_perfil = [], access_token = ''old'', refresh_token = ''1//r'', token_expira = None,
       suscriptores = 0, videos_publicados = 0, vistas_totales = 0, url_canal = [] \<rparr>"

definition example_db :: database where
  "example_db =
     \<lparr> users = [\<lparr> du_id = 1, username = ''youtube_UC1'', first_name = ''Canal'' \<rparr>],
       accounts = [example_account], videos_subidos = [], videos_guardados = [] \<rparr>"


definition example_error_response :: py_dict where
  "example_error_response =
     [''error'' \<mapsto> PStr ''invalid_grant'', ''error_description'' \<mapsto> PStr ''Bad Request'']"

definition example_channels :: channels_data where
  "example_channels =
     \<lparr> cd_error = None,
       cd_items = Some [\<lparr> ch_id = Some ''UC1'', ch_snippet = None, ch_statistics = None \<rparr>] \<rparr>"


definition example_request :: callback_request where
  "example_request =
     \<lparr> get_code = Some ''4/0A'', get_error = None, get_error_description = None,
       request_user = None \<rparr>"

definition example_clock :: int where
  "example_clock = 63800000000000000"

definition example_env :: "py_dict \<Rightarrow> channels_data \<Rightarrow> callback_env" where
  "example_env token_response channels =
     \<lparr> token_http = Inr token_response, userinfo_http = Inl Timeout,
       channels_http = Inr channels, clock = example_clock, clock_stamp = ''20251104080000'' \<rparr>"

section \<open>Validating an uploaded file (views.py, \<open>_validar_archivo_video\<close>)\<close>

record uploaded_file =
  uf_name :: string
  uf_size :: int

text \<open>\<open>str.lower()\<close> on the code points below 256.\<close>

definition lower_char :: "char \<Rightarrow> char" where
  "lower_char c =
     (let n = (of_char c :: nat)
      in if (65 \<le> n \<and> n \<le> 90) \<or> (192 \<le> n \<and> n \<le> 222 \<and> n \<noteq> 215)
         then char_of (n + 32) else c)"

text \<open>\<open>p.rfind(c)\<close>: the last index of \<open>c\<close>, or \<open>-1\<close>.\<close>

definition rfind :: "char \<Rightarrow> string \<Rightarrow> int" where
  "rfind c p =
     (if c \<in> set p
      then int (length p) - 1 - int (length (takeWhile (\<lambda>x. x \<noteq> c) (rev p)))
      else - 1)"

text \<open>
  \<open>os.path.splitext\<close> of the standard library, for POSIX paths: the extension starts at
  the last dot, provided the dot comes after the last slash and some character other than
  a dot stands between the two.
\<close>

definition splitext :: "string \<Rightarrow> string \<times> string" where
  "splitext p =
     (let sepIndex = rfind (CHR ''/'') p;
          dotIndex = rfind (CHR ''.'') p
      in if dotIndex > sepIndex
            \<and> list_ex (\<lambda>c. c \<noteq> CHR ''.'')
                 (take (nat (dotIndex - (sepIndex + 1))) (drop (nat (sepIndex + 1)) p))
         then (take (nat dotIndex) p, drop (nat dotIndex) p)
         else (p, []))"

definition allowed_extensions :: "string list" where
  "allowed_extensions = [''.mp4'', ''.mov'', ''.avi'', ''.wmv'', ''.flv'', ''.webm'']"

definition validar_archivo_video :: "uploaded_file \<Rightarrow> bool" where
  "validar_archivo_video video_file =
     (let max_size = 128 * 1024 * 1024
      in if uf_size video_file > max_size then False
         else
           let ext = map lower_char (snd (splitext (uf_name video_file)))
           in if ext \<notin> set allowed_extensions then False
              else True)"

section \<open>The upload endpoint (views.py, \<open>procesar_subida_ajax\<close>)\<close>

text \<open>
  The view is behind \<open>login_required\<close>. The environment gives the clock, the directory
  \<open>MEDIA_ROOT\<close> of the settings and the outcome of writing the file. An exception the
  view does not catch is the result \<open>Inl\<close>; the framework answers it with status 500.
  \<open>VideoSubido.objects.create\<close> raises for a size outside its column and for a second
  row whose \<open>youtube_video_id\<close> is still empty, the column being unique.
\<close>

record upload_request =
  ur_method :: string
  ur_user :: nat
  ur_video_file :: "uploaded_file option"
  post_titulo :: "string option"
  post_descripcion :: "string option"
  post_etiquetas :: "string option"
  post_categoria :: "string option"
  post_privacidad :: "string option"

record request_env =
  re_now :: int
  media_root :: string
  write_file :: "exc option"

record upload_response =
  up_status :: nat
  up_success :: bool
  up_error :: "string option"
  up_needs_reauth :: bool
  up_video_id :: "nat option"

record upload_result =
  up_outcome :: "exc + upload_response"
  up_db :: database
  up_thread :: "(video_subido \<times> string) option"

definition upload_error :: "nat \<Rightarrow> string \<Rightarrow> bool \<Rightarrow> database \<Rightarrow> upload_result" where
  "upload_error st msg reauth db =
     \<lparr> up_outcome = Inr \<lparr> up_status = st, up_success = False, up_error = Some msg,
                          up_needs_reauth = reauth, up_video_id = None \<rparr>,
       up_db = db, up_thread = None \<rparr>"

text \<open>\<open>os.path.join(a, b)\<close> for a relative \<open>b\<close>.\<close>

definition path_join :: "string \<Rightarrow> string \<Rightarrow> string" where
  "path_join a b = (if a = [] \<or> last a = CHR ''/'' then a @ b else a @ ''/'' @ b)"

definition or_default :: "string option \<Rightarrow> string \<Rightarrow> string" where
  "or_default v dflt = (case v of None \<Rightarrow> dflt | Some s \<Rightarrow> s)"

definition procesar_subida_ajax :: "upload_request \<Rightarrow> request_env \<Rightarrow> database \<Rightarrow> upload_result" where
  "procesar_subida_ajax request env db =
     (if ur_method request \<noteq> ''POST'' then
        upload_error 405 (''M'' @ [CHR 0xE9] @ ''todo no permitido'') False db
      else
        case objects_get (\<lambda>a. ya_user a = ur_user request) (accounts db) of
          Inl e \<Rightarrow>
            if e = DoesNotExist then upload_error 400 ''Cuenta no vinculada'' False db
            else \<lparr> up_outcome = Inl e, up_db = db, up_thread = None \<rparr>
        | Inr youtube_account \<Rightarrow>
            if \<not> esta_autenticado (re_now env) youtube_account then
              upload_error 401 ''Token expirado'' True db
            else
              case ur_video_file request of
                None \<Rightarrow> upload_error 400 (''No se envi'' @ [CHR 0xF3] @ '' archivo'') False db
              | Some video_file \<Rightarrow>
                  if \<not> validar_archivo_video video_file then
                    upload_error 400 (''Archivo no v'' @ [CHR 0xE1] @ ''lido'') False db
                  else if \<not> int64 (uf_size video_file) then
                    \<lparr> up_outcome = Inl OverflowError, up_db = db, up_thread = None \<rparr>
                  else if list_ex (\<lambda>v. youtube_video_id v = []) (videos_subidos db) then
                    \<lparr> up_outcome = Inl IntegrityError, up_db = db, up_thread = None \<rparr>
                  else
                    let new_id = fresh_id (map vs_id (videos_subidos db));
                        video_subido =
                          \<lparr> vs_id = new_id,
                            vs_youtube_account = ya_id youtube_account,
                            youtube_video_id = [],
                            vs_titulo = or_default (post_titulo request) (uf_name video_file),
                            estado = ''pending'',
                            archivo_path = uf_name video_file,
                            archivo_size = uf_size video_file,
                            vs_descripcion = or_default (post_descripcion request) [],
                            vs_etiquetas = or_default (post_etiquetas request) [],
                            categoria_id = or_default (post_categoria request) ''22'',
                            privacidad = or_default (post_privacidad request) ''private'',
                            inicio_subida = None,
                            fin_subida = None,
                            mensaje_error = Lit [] \<rparr>;
                        db1 = db\<lparr>videos_subidos := videos_subidos db @ [video_subido]\<rparr>
                    in case write_file env of
                         Some e \<Rightarrow> \<lparr> up_outcome = Inl e, up_db = db1, up_thread = None \<rparr>
                       | None \<Rightarrow>
                           let upload_dir = path_join (path_join (media_root env) ''uploads'')
                                              (decimal (ur_user request));
                               file_path = path_join upload_dir
                                             (decimal new_id @ ''_'' @ uf_name video_file);
                               saved = video_subido\<lparr>archivo_path := file_path\<rparr>;
                               db2 = db\<lparr>videos_subidos := videos_subidos db @ [saved]\<rparr>
                           in \<lparr> up_outcome = Inr \<lparr> up_status = 200, up_success = True,
                                                   up_error = None, up_needs_reauth = False,
                                                   up_video_id = Some new_id \<rparr>,
                                up_db = db2,
                                up_thread = Some (saved, access_token youtube_account) \<rparr>)"

section \<open>The upload in the background (views.py, \<open>_subir_video_youtube\<close>)\<close>


text \<open>
  The run: the values \<open>estado\<close> takes, in order, from the one on entry; the rows the
  successful saves write, in order; the job object at the end; the exception the handler
  caught, and the one that leaves the function.
\<close>

record upload_run =
  trace :: "string list"
  saved :: "video_subido list"
  final :: video_subido
  raised :: "exc option"
  escaped :: "exc option"




section \<open>Upload jobs as the claims describe them\<close>







definition example_valid_account :: youtube_account where
  "example_valid_account =
     example_account\<lparr>token_expira := Some (example_clock + 3599 * 1000000)\<rparr>"

definition example_valid_db :: database where
  "example_valid_db = example_db\<lparr>accounts := [example_valid_account]\<rparr>"

definition example_upload_request :: "uploaded_file \<Rightarrow> upload_request" where
  "example_upload_request f =
     \<lparr> ur_method = ''POST'', ur_user = 1, ur_video_file = Some f, post_titulo = None,
       post_descripcion = None, post_etiquetas = None, post_categoria = None,
       post_privacidad = None \<rparr>"

definition example_request_env :: request_env where
  "example_request_env = \<lparr> re_now = example_clock, media_root = ''media'', write_file = None \<rparr>"


section \<open>Saving a video from the search (views.py, \<open>guardar_video_busqueda\<close>)\<close>

text \<open>
  The document of \<open>videos.list\<close>, typed after the API: the statistics are a dictionary
  of scalars (the API sends the counts as strings), the other parts carry strings.
\<close>

record video_snippet =
  vsn_title :: "string option"
  vsn_description :: "string option"
  vsn_channelTitle :: "string option"
  vsn_channelId :: "string option"
  vsn_publishedAt :: "string option"
  vsn_categoryId :: "string option"
  vsn_thumbnails :: "(string \<rightharpoonup> (string \<rightharpoonup> string)) option"
  vsn_tags :: "string list option"

record video_item =
  vi_snippet :: "video_snippet option"
  vi_statistics :: "py_dict option"
  vi_contentDetails :: "(string \<rightharpoonup> string) option"

record videos_data =
  vd_items :: "video_item list option"

text \<open>
  The environment of the view: the clock, the outcome of the request to the API, and
  \<open>datetime.fromisoformat\<close>, which gives \<open>None\<close> where the library raises.
\<close>

record guardar_env =
  ge_now :: int
  videos_http :: "exc + videos_data"
  fromisoformat :: "string \<Rightarrow> int option"

text \<open>The dictionary \<open>_obtener_info_video_youtube\<close> returns.\<close>

record video_info =
  vinfo_titulo :: string
  vinfo_descripcion :: string
  vinfo_canal_nombre :: string
  vinfo_canal_id :: string
  vinfo_url_thumbnail :: string
  vinfo_fecha_publicacion :: "int option"
  vinfo_vistas :: int
  vinfo_likes :: int
  vinfo_comentarios :: int
  vinfo_duracion :: string
  vinfo_categoria :: string
  vinfo_etiquetas :: string

text \<open>
  The loop over the sizes: the URL of the first size that has a non-empty one; the last
  URL read stays when none is non-empty.
\<close>

fun best_thumbnail :: "(string \<rightharpoonup> (string \<rightharpoonup> string)) \<Rightarrow> string list \<Rightarrow> string \<Rightarrow> string" where
  "best_thumbnail thumbnails [] current = current"
| "best_thumbnail thumbnails (sz # rest) current =
     (case thumbnails sz of
        None \<Rightarrow> best_thumbnail thumbnails rest current
      | Some t \<Rightarrow>
          (let u = (case t ''url'' of None \<Rightarrow> [] | Some u \<Rightarrow> u)
           in if u \<noteq> [] then u else best_thumbnail thumbnails rest u))"

text \<open>\<open>s.replace('Z', '+00:00')\<close> and \<open>','.join(xs)\<close>.\<close>

definition replace_Z :: "string \<Rightarrow> string" where
  "replace_Z s = concat (map (\<lambda>c. if c = CHR ''Z'' then ''+00:00'' else [c]) s)"

fun join_comma :: "string list \<Rightarrow> string" where
  "join_comma [] = []"
| "join_comma [x] = x"
| "join_comma (x # y # r) = x @ '','' @ join_comma (y # r)"

definition minimal_info :: "scalar \<Rightarrow> video_info" where
  "minimal_info vid =
     \<lparr> vinfo_titulo = [], vinfo_descripcion = [], vinfo_canal_nombre = [], vinfo_canal_id = [],
       vinfo_url_thumbnail = ''https://img.youtube.com/vi/'' @ py_str vid @ ''/hqdefault.jpg'',
       vinfo_fecha_publicacion = None, vinfo_vistas = 0, vinfo_likes = 0, vinfo_comentarios = 0,
       vinfo_duracion = [], vinfo_categoria = [], vinfo_etiquetas = [] \<rparr>"

definition item_info :: "guardar_env \<Rightarrow> video_item \<Rightarrow> exc + video_info" where
  "item_info env item =
     (let snippet = vi_snippet item;
          field = (\<lambda>sel. case snippet of None \<Rightarrow> [] | Some sn \<Rightarrow> or_default (sel sn) []);
          stats = (case vi_statistics item of None \<Rightarrow> Map.empty | Some st \<Rightarrow> st);
          content_details = (case vi_contentDetails item of None \<Rightarrow> Map.empty | Some cd \<Rightarrow> cd);
          fecha_str = field vsn_publishedAt;
          fecha = (if fecha_str \<noteq> [] then fromisoformat env (replace_Z fecha_str) else None);
          thumbnails = (case snippet of
                          None \<Rightarrow> Map.empty
                        | Some sn \<Rightarrow> (case vsn_thumbnails sn of None \<Rightarrow> Map.empty | Some th \<Rightarrow> th));
          thumb = best_thumbnail thumbnails [''maxres'', ''high'', ''medium'', ''default''] [];
          duracion_iso = (case content_details ''duration'' of None \<Rightarrow> [] | Some d \<Rightarrow> d);
          duracion_fmt = formatear_duracion_iso duracion_iso;
          tags = (case snippet of
                    None \<Rightarrow> []
                  | Some sn \<Rightarrow> (case vsn_tags sn of None \<Rightarrow> [] | Some ts \<Rightarrow> ts))
      in case py_int (dict_get stats ''viewCount'' (PInt 0)) of
           Inl e \<Rightarrow> Inl e
         | Inr n_vistas \<Rightarrow>
             (case py_int (dict_get stats ''likeCount'' (PInt 0)) of
                Inl e \<Rightarrow> Inl e
              | Inr n_likes \<Rightarrow>
                  (case py_int (dict_get stats ''commentCount'' (PInt 0)) of
                     Inl e \<Rightarrow> Inl e
                   | Inr n_comentarios \<Rightarrow>
                       Inr \<lparr> vinfo_titulo = field vsn_title,
                             vinfo_descripcion = field vsn_description,
                             vinfo_canal_nombre = field vsn_channelTitle,
                             vinfo_canal_id = field vsn_channelId,
                             vinfo_url_thumbnail = thumb,
                             vinfo_fecha_publicacion = fecha,
                             vinfo_vistas = n_vistas,
                             vinfo_likes = n_likes,
                             vinfo_comentarios = n_comentarios,
                             vinfo_duracion = duracion_fmt,
                             vinfo_categoria = field vsn_categoryId,
                             vinfo_etiquetas = join_comma tags \<rparr>)))"

text \<open>
  \<open>_obtener_info_video_youtube\<close>: only \<open>YouTubeAccount.DoesNotExist\<close> is caught; every
  other exception leaves the function. The comment before its last \<open>return\<close> says
  that the minimal information is used when there is no account or the call failed, and
  its sibling \<open>_actualizar_info_video_youtube\<close> catches \<open>Exception\<close>.
\<close>

definition obtener_info_video_youtube ::
  "scalar \<Rightarrow> nat \<Rightarrow> guardar_env \<Rightarrow> database \<Rightarrow> exc + video_info" where
  "obtener_info_video_youtube vid user_id env db =
     (case objects_get (\<lambda>a. ya_user a = user_id) (accounts db) of
        Inl e \<Rightarrow> if e = DoesNotExist then Inr (minimal_info vid) else Inl e
      | Inr youtube_account \<Rightarrow>
          if esta_autenticado (ge_now env) youtube_account then
            (case videos_http env of
               Inl e \<Rightarrow> Inl e
             | Inr data \<Rightarrow>
                 (case vd_items data of
                    Some (item # rest) \<Rightarrow> item_info env item
                  | _ \<Rightarrow> Inr (minimal_info vid)))
          else Inr (minimal_info vid))"

text \<open>
  The view is behind \<open>login_required\<close>. The body of the request is the outcome of
  \<open>json.loads\<close> followed by the first \<open>data.get\<close>: an exception, or the dictionary.
  The view also reads \<open>titulo\<close> from the body, as the default of
  \<open>video_info.get('titulo', titulo)\<close>; the dictionary of the video always has the key,
  so the value is never used.
\<close>

record guardar_request =
  gr_method :: string
  gr_user :: nat
  gr_body :: "exc + py_dict"

record guardar_response =
  gr_status :: nat
  gr_success :: bool
  gr_error :: "detail option"
  gr_id :: "nat option"

definition guardar_error :: "nat \<Rightarrow> detail \<Rightarrow> database \<Rightarrow> guardar_response \<times> database" where
  "guardar_error st err db =
     (\<lparr> gr_status = st, gr_success = False, gr_error = Some err, gr_id = None \<rparr>, db)"

text \<open>
  \<open>VideoGuardado.objects.create(...)\<close>: the row, or \<open>OverflowError\<close> when a count is
  outside its column (\<open>vistas\<close> is a \<open>BigIntegerField\<close>, \<open>likes\<close> and \<open>comentarios\<close>
  are \<open>IntegerField\<close>). The pair of video and user is free when the view gets here.
\<close>

definition create_video_guardado ::
  "nat \<Rightarrow> scalar \<Rightarrow> nat \<Rightarrow> video_info \<Rightarrow> exc + video_guardado" where
  "create_video_guardado new_id vid user_id video_info =
     (if \<not> (int64 (vinfo_vistas video_info) \<and> int64 (vinfo_likes video_info)
             \<and> int64 (vinfo_comentarios video_info))
      then Inl OverflowError
      else
        Inr \<lparr> vg_id = new_id,
              video_id = py_str vid,
              usuario = user_id,
              vg_titulo = vinfo_titulo video_info,
              vg_descripcion = vinfo_descripcion video_info,
              canal_nombre = vinfo_canal_nombre video_info,
              canal_id = vinfo_canal_id video_info,
              url_thumbnail = vinfo_url_thumbnail video_info,
              fecha_publicacion = vinfo_fecha_publicacion video_info,
              vistas = vinfo_vistas video_info,
              likes = vinfo_likes video_info,
              comentarios = vinfo_comentarios video_info,
              duracion = vinfo_duracion video_info,
              categoria = vinfo_categoria video_info,
              vg_etiquetas = vinfo_etiquetas video_info \<rparr>)"

definition guardar_video_busqueda ::
  "guardar_request \<Rightarrow> guardar_env \<Rightarrow> database \<Rightarrow> guardar_response \<times> database" where
  "guardar_video_busqueda request env db =
     (if gr_method request \<noteq> ''POST'' then
        guardar_error 405 (Lit (''M'' @ [CHR 0xE9] @ ''todo no permitido'')) db
      else
        case gr_body request of
          Inl e \<Rightarrow> guardar_error 500 (StrOf ''Error al guardar video: '' e) db
        | Inr data \<Rightarrow>
            let vid = dict_get data ''video_id'' PNone
            in if \<not> truthy vid then guardar_error 200 (Lit ''ID de video requerido'') db
               else if list_ex (\<lambda>v. video_id v = py_str vid \<and> usuario v = gr_user request)
                         (videos_guardados db)
               then guardar_error 200 (Lit ''Ya tienes este video guardado'') db
               else
                 (case obtener_info_video_youtube vid (gr_user request) env db of
                    Inl e \<Rightarrow> guardar_error 500 (StrOf ''Error al guardar video: '' e) db
                  | Inr video_info \<Rightarrow>
                      let new_id = fresh_id (map vg_id (videos_guardados db))
                      in (case create_video_guardado new_id vid (gr_user request) video_info of
                            Inl e \<Rightarrow> guardar_error 500 (StrOf ''Error al guardar video: '' e) db
                          | Inr video_guardado \<Rightarrow>
                              (\<lparr> gr_status = 200, gr_success = True, gr_error = None,
                                 gr_id = Some new_id \<rparr>,
                               db\<lparr>videos_guardados := videos_guardados db @ [video_guardado]\<rparr>))))"

section \<open>Saved videos as the claims describe them\<close>

text \<open>The rows of a user for a video, and the constraint \<open>unique_together\<close> of the model.\<close>

definition saved_copies :: "string \<Rightarrow> nat \<Rightarrow> database \<Rightarrow> nat" where
  "saved_copies vid user_id db =
     length (filter (\<lambda>v. video_id v = vid \<and> usuario v = user_id) (videos_guardados db))"

definition at_most_one :: "database \<Rightarrow> bool" where
  "at_most_one db \<longleftrightarrow> distinct (map (\<lambda>v. (video_id v, usuario v)) (videos_guardados db))"

text \<open>Sample values: a request to save a video, and the API out of reach.\<close>

definition example_guardar_request :: guardar_request where
  "example_guardar_request =
     \<lparr> gr_method = ''POST'', gr_user = 1, gr_body = Inr [''video_id'' \<mapsto> PStr ''dQw4w9WgXcQ''] \<rparr>"

definition example_guardar_env :: "exc + videos_data \<Rightarrow> guardar_env" where
  "example_guardar_env http =
     \<lparr> ge_now = example_clock, videos_http = http, fromisoformat = (\<lambda>s. None) \<rparr>"

definition example_videos :: videos_data where
  "example_videos =
     \<lparr> vd_items = Some [\<lparr> vi_snippet = None,
                           vi_statistics = Some [''viewCount'' \<mapsto> PStr ''1500''],
                           vi_contentDetails = Some [''duration'' \<mapsto> ''PT3M33S''] \<rparr>] \<rparr>"

section \<open>The duration formatters: proofs\<close>

lemma length_decimal_ge2: "10 \<le> n \<Longrightarrow> 2 \<le> length (decimal n)"
  by (subst decimal.simps) (simp, subst decimal.simps, simp)

lemma decimal_two:
  assumes "10 \<le> n" and "n < 100"
  shows "decimal n = two_digits n"
proof -
  from assms have "n div 10 < 10" by arith
  then have "decimal (n div 10) = [digit_char (n div 10)]"
    by (subst decimal.simps) simp
  with assms show ?thesis
    by (subst decimal.simps) (simp add: two_digits_def)
qed

lemma fmt02d_padded_field: "fmt02d (int k) = padded_field k"
proof (cases "k < 10")
  case True
  then show ?thesis
    by (simp add: fmt02d_def padded_field_def zfill_def decimal.simps [of k] two_digits_def digit_char_def)
next
  case False
  then have "2 \<le> length (decimal k)" by (simp add: length_decimal_ge2)
  then have "fmt02d (int k) = decimal k" by (simp add: fmt02d_def zfill_def)
  with False show ?thesis by (simp add: padded_field_def decimal_two)
qed

lemma not_digit_letters [simp]:
  "\<not> is_digit (CHR ''P'')" "\<not> is_digit (CHR ''T'')" "\<not> is_digit (CHR ''H'')"
  "\<not> is_digit (CHR ''M'')" "\<not> is_digit (CHR ''S'')"
  by (simp_all add: is_digit_def)

lemma match_group_Nil [simp]: "match_group x [] = None"
  by (simp add: match_group_def)

lemma match_group_run:
  assumes "list_all is_digit ds" and "\<not> is_digit y"
  shows "match_group x (ds @ y # rest) = (if ds \<noteq> [] \<and> y = x then Some (ds, rest) else None)"
proof -
  from assms have "takeWhile is_digit (ds @ y # rest) = ds"
    by (simp add: takeWhile_tail list_all_iff)
  moreover from assms have "dropWhile is_digit (ds @ y # rest) = y # rest"
    by (simp add: dropWhile_append2 list_all_iff)
  ultimately show ?thesis by (simp add: match_group_def)
qed

lemma re_search_group_run:
  assumes "list_all is_digit ds" and "\<not> is_digit y"
  shows "re_search_group x (ds @ y # rest) =
           (if ds \<noteq> [] \<and> y = x then Some ds else re_search_group x rest)"
  using assms
proof (induction ds)
  case Nil
  then have "match_group x (y # rest) = None"
    using match_group_run [of "[]" y x rest] by simp
  then show ?case by simp
next
  case (Cons d ds)
  then have m: "match_group x (d # ds @ y # rest) = (if y = x then Some (d # ds, rest) else None)"
    using match_group_run [of "d # ds" y x rest] by simp
  show ?case
  proof (cases "y = x")
    case True
    with m show ?thesis by simp
  next
    case False
    with m Cons show ?thesis by simp
  qed
qed

lemma re_search_group_skip: "\<not> is_digit y \<Longrightarrow> re_search_group x (y # rest) = re_search_group x rest"
  using re_search_group_run [of "[]" y x rest] by simp

lemma re_search_group_component:
  assumes "valid_component g" and "\<not> is_digit y"
  shows "re_search_group x (component g y @ rest) =
           (if y = x \<and> g \<noteq> None then g else re_search_group x rest)"
proof (cases g)
  case None
  then show ?thesis by (simp add: component_def)
next
  case (Some ds)
  with assms have "list_all is_digit ds" and "ds \<noteq> []"
    by (simp_all add: valid_component_def digits_def)
  with assms(2) Some show ?thesis
    by (simp add: component_def re_search_group_run)
qed

lemma match_group_component:
  assumes "valid_component g" and "\<not> is_digit y"
  shows "match_group x (component g y @ rest) =
           (case g of None \<Rightarrow> match_group x rest
            | Some ds \<Rightarrow> if y = x then Some (ds, rest) else None)"
proof (cases g)
  case None
  then show ?thesis by (simp add: component_def)
next
  case (Some ds)
  with assms have "list_all is_digit ds" and "ds \<noteq> []"
    by (simp_all add: valid_component_def digits_def)
  with assms(2) Some show ?thesis
    by (simp add: component_def match_group_run)
qed

lemma re_search_iso:
  assumes "valid_component gh" "valid_component gm" "valid_component gs"
  shows "re_search_group (CHR ''H'') (iso_duration gh gm gs) = gh"
    and "re_search_group (CHR ''M'') (iso_duration gh gm gs) = gm"
    and "re_search_group (CHR ''S'') (iso_duration gh gm gs) = gs"
  using assms re_search_group_component [where rest = "[]"]
  by (simp_all add: iso_duration_def re_search_group_skip re_search_group_component
        del: re_search_group.simps(2))


lemma match_group_component_end:
  assumes "valid_component g" and "\<not> is_digit y"
  shows "match_group x (component g y) =
           (case g of None \<Rightarrow> None | Some ds \<Rightarrow> if y = x then Some (ds, []) else None)"
  using match_group_component [OF assms, of x "[]"] by (simp split: option.split)

lemma group_int_value: "group_int g = int (component_value g)"
  by (simp add: group_int_def component_value_def split: option.split)

lemma re_match_pt_iso:
  assumes "valid_component gh" "valid_component gm" "valid_component gs"
  shows "re_match_pt (iso_duration gh gm gs) = Some (gh, gm, gs)"
proof -
  let ?S = "component gs (CHR ''S'')"
  let ?M = "component gm (CHR ''M'') @ ?S"
  have s: "opt_group (CHR ''S'') ?S = (gs, [])"
    using assms(3)
    by (simp add: opt_group_def match_group_component_end component_def [of None] split: option.split)
  have m: "opt_group (CHR ''M'') ?M = (gm, ?S)"
    using assms(2,3)
    by (simp add: opt_group_def match_group_component match_group_component_end
          component_def [of None] split: option.split)
  have h: "opt_group (CHR ''H'') (component gh (CHR ''H'') @ ?M) = (gh, ?M)"
    using assms
    by (simp add: opt_group_def match_group_component match_group_component_end
          component_def [of None] split: option.split)
  show ?thesis
    by (simp add: re_match_pt_def iso_duration_def h m s)
qed

lemma formatear_padded:
  "formatear (int h) (int m) (int s) =
     (if 0 < h then padded_field h @ '':'' @ padded_field m @ '':'' @ padded_field s
      else padded_field m @ '':'' @ padded_field s)"
  by (simp add: formatear_def fmt02d_padded_field)

lemma iso_duration_not_Nil: "iso_duration gh gm gs \<noteq> []"
  by (simp add: iso_duration_def)

text \<open>
  Claim C4, as the code has it. For a duration \<open>PT[hH][mM][sS]\<close>, every component a
  non-empty run of digits or absent, \<open>_formatear_duracion_iso\<close> returns
  \<open>hours:minutes:seconds\<close> when the hours are greater than zero and \<open>minutes:seconds\<close>
  otherwise, where every field is filled with zeros up to at least two digits: a value
  below 100 gives exactly two digits, a value of 100 or more is printed with all its
  digits. The empty input gives the empty string, and an input that does not start with
  \<open>PT\<close> is returned unchanged.
\<close>

theorem formatear_duracion_iso_padded:
  "(valid_component gh \<and> valid_component gm \<and> valid_component gs \<longrightarrow>
      formatear_duracion_iso (iso_duration gh gm gs) =
        (if 0 < component_value gh
         then padded_field (component_value gh) @ '':'' @ padded_field (component_value gm)
              @ '':'' @ padded_field (component_value gs)
         else padded_field (component_value gm) @ '':'' @ padded_field (component_value gs)))
   \<and> formatear_duracion_iso [] = []
   \<and> (take 2 s \<noteq> ''PT'' \<longrightarrow> formatear_duracion_iso s = s)"
proof (intro conjI impI)
  assume v: "valid_component gh \<and> valid_component gm \<and> valid_component gs"
  then have "re_match_pt (iso_duration gh gm gs) = Some (gh, gm, gs)"
    by (simp add: re_match_pt_iso)
  then show "formatear_duracion_iso (iso_duration gh gm gs) =
        (if 0 < component_value gh
         then padded_field (component_value gh) @ '':'' @ padded_field (component_value gm)
              @ '':'' @ padded_field (component_value gs)
         else padded_field (component_value gm) @ '':'' @ padded_field (component_value gs))"
    by (simp add: formatear_duracion_iso_def iso_duration_not_Nil group_int_value formatear_padded)
next
  show "formatear_duracion_iso [] = []"
    by (simp add: formatear_duracion_iso_def)
next
  assume "take 2 s \<noteq> ''PT''"
  then have "re_match_pt s = None"
    by (auto simp: re_match_pt_def split: list.split)
  then show "formatear_duracion_iso s = s"
    by (simp add: formatear_duracion_iso_def)
qed

theorem formatear_duracion_iso_padded_witness:
  "valid_component (Some ''1'') \<and> valid_component (Some ''15'') \<and> valid_component (Some ''30'')
   \<and> formatear_duracion_iso ''PT1H15M30S'' = ''01:15:30''
   \<and> take 2 ''15:30'' \<noteq> ''PT''
   \<and> formatear_duracion_iso ''15:30'' = ''15:30''"
proof -
  have v: "valid_component (Some ''1'') \<and> valid_component (Some ''15'') \<and> valid_component (Some ''30'')"
    by code_simp
  have i: "iso_duration (Some ''1'') (Some ''15'') (Some ''30'') = ''PT1H15M30S''"
    by code_simp
  have r: "(if 0 < component_value (Some ''1'')
         then padded_field (component_value (Some ''1'')) @ '':'' @ padded_field (component_value (Some ''15''))
              @ '':'' @ padded_field (component_value (Some ''30''))
         else padded_field (component_value (Some ''15'')) @ '':'' @ padded_field (component_value (Some ''30'')))
       = ''01:15:30''"
    by code_simp
  have t: "take 2 ''15:30'' \<noteq> ''PT''"
    by simp
  from formatear_duracion_iso_padded [of "Some ''1''" "Some ''15''" "Some ''30''" "''15:30''"]
  show ?thesis
    unfolding i r using v t by blast
qed

text \<open>
  Claim C4 as stated asks for the shape \<open>HH:MM:SS\<close>. One hundred hours are printed
  with three digits, so the result is one character longer than that shape.
\<close>

theorem formatear_duracion_iso_counterexample:
  "formatear_duracion_iso ''PT100H'' = ''100:00:00''
   \<and> length (formatear_duracion_iso ''PT100H'') \<noteq> length ''HH:MM:SS''"
  by code_simp

text \<open>
  Claim C9. On every string \<open>PT[hH][mM][sS]\<close> (never empty, each component a non-empty
  run of digits or absent) \<open>_formatear_duracion\<close>, which searches the string, and
  \<open>_formatear_duracion_iso\<close>, which matches from the start, return the same string. They
  differ on the empty string (\<open>N/A\<close> against the empty string) and on \<open>P1DT2M3S\<close>, a
  duration with a date part (\<open>02:03\<close> against the input itself).
\<close>

theorem formatear_duracion_agree:
  "(valid_component gh \<and> valid_component gm \<and> valid_component gs \<longrightarrow>
      formatear_duracion (iso_duration gh gm gs) = formatear_duracion_iso (iso_duration gh gm gs))
   \<and> formatear_duracion [] \<noteq> formatear_duracion_iso []
   \<and> formatear_duracion ''P1DT2M3S'' \<noteq> formatear_duracion_iso ''P1DT2M3S''"
proof (intro conjI impI)
  assume v: "valid_component gh \<and> valid_component gm \<and> valid_component gs"
  then show "formatear_duracion (iso_duration gh gm gs) = formatear_duracion_iso (iso_duration gh gm gs)"
    by (simp add: formatear_duracion_def formatear_duracion_iso_def iso_duration_not_Nil
          re_search_iso re_match_pt_iso)
next
  show "formatear_duracion [] \<noteq> formatear_duracion_iso []"
    by (simp add: formatear_duracion_def formatear_duracion_iso_def)
next
  show "formatear_duracion ''P1DT2M3S'' \<noteq> formatear_duracion_iso ''P1DT2M3S''"
    by code_simp
qed

theorem formatear_duracion_agree_witness:
  "valid_component None \<and> valid_component (Some ''7'') \<and> valid_component (Some ''05'')
   \<and> formatear_duracion ''PT7M05S'' = ''07:05''
   \<and> formatear_duracion_iso ''PT7M05S'' = ''07:05''"
proof -
  have v: "valid_component None \<and> valid_component (Some ''7'') \<and> valid_component (Some ''05'')"
    by code_simp
  have i: "iso_duration None (Some ''7'') (Some ''05'') = ''PT7M05S''"
    by code_simp
  have r: "formatear_duracion_iso ''PT7M05S'' = ''07:05''"
    by code_simp
  from formatear_duracion_agree [of None "Some ''7''" "Some ''05''"]
  have "valid_component None \<and> valid_component (Some ''7'') \<and> valid_component (Some ''05'')
        \<longrightarrow> formatear_duracion ''PT7M05S'' = formatear_duracion_iso ''PT7M05S''"
    unfolding i by blast
  with v r show ?thesis by simp
qed

text \<open>
  Claim C5, as the code has it. For \<open>duracion_segundos \<ge> 0\<close>, with
  \<open>hours = duracion_segundos div 3600\<close>, \<open>minutes = (duracion_segundos mod 3600) div 60\<close>
  and \<open>seconds = duracion_segundos mod 60\<close>, \<open>duracion_formateada\<close> returns
  \<open>hours:minutes:seconds\<close> when the hours are greater than zero and \<open>minutes:seconds\<close>
  otherwise. Minutes and seconds have exactly two digits. The hours have two digits below
  100 and all their digits from 100 on.
\<close>

theorem duracion_formateada_fields:
  assumes "0 \<le> duracion_segundos"
  shows "duracion_formateada duracion_segundos =
     (let horas = nat duracion_segundos div 3600;
          minutos = (nat duracion_segundos mod 3600) div 60;
          segundos = nat duracion_segundos mod 60
      in if 0 < horas then padded_field horas @ '':'' @ two_digits minutos @ '':'' @ two_digits segundos
         else two_digits minutos @ '':'' @ two_digits segundos)"
proof -
  obtain k where k: "duracion_segundos = int k"
    using assms nonneg_int_cases by blast
  have "k mod 3600 div 60 < 100" by arith
  then have m: "padded_field (k mod 3600 div 60) = two_digits (k mod 3600 div 60)"
    by (simp add: padded_field_def)
  have "k mod 60 < 100" by arith
  then have s: "padded_field (k mod 60) = two_digits (k mod 60)"
    by (simp add: padded_field_def)
  have d: "int k div 3600 = int (k div 3600)"
       "int k mod 3600 div 60 = int (k mod 3600 div 60)"
       "int k mod 60 = int (k mod 60)"
    by (simp_all add: zdiv_int zmod_int)
  show ?thesis
    by (simp only: duracion_formateada_def Let_def k nat_int d fmt02d_padded_field m s
          of_nat_0_less_iff)
qed

theorem duracion_formateada_fields_witness:
  "(0::int) \<le> 3725 \<and> duracion_formateada 3725 = ''01:02:05''"
proof -
  have h: "(0::int) \<le> 3725" by simp
  have r: "(let horas = nat 3725 div 3600;
          minutos = (nat 3725 mod 3600) div 60;
          segundos = nat 3725 mod 60
      in if 0 < horas then padded_field horas @ '':'' @ two_digits minutos @ '':'' @ two_digits segundos
         else two_digits minutos @ '':'' @ two_digits segundos) = ''01:02:05''"
    by code_simp
  from duracion_formateada_fields [OF h] show ?thesis
    unfolding r using h by blast
qed

text \<open>
  Claim C5 as stated asks for two digits in every field. At 360000 seconds, which is one
  hundred hours, the hours take three digits.
\<close>

theorem duracion_formateada_counterexample:
  "duracion_formateada 360000 = ''100:00:00''
   \<and> length (duracion_formateada 360000) \<noteq> length ''HH:MM:SS''"
  by code_simp

section \<open>The OAuth flows: proofs\<close>

lemma is_error_page_ErrorPage [simp]: "is_error_page (ErrorPage e d)"
  by (simp add: is_error_page_def)

lemma is_error_page_token_handler [simp]: "is_error_page (token_handler e)"
  by (simp add: token_handler_def)

lemma is_error_page_channel_handler [simp]: "is_error_page (channel_handler e)"
  by (simp add: channel_handler_def)

lemma early_exit_fields [simp]:
  "cb_response (early_exit r db) = r" "cb_db (early_exit r db) = db"
  by (simp_all add: early_exit_def)

lemma db_failure_not_redirect [simp]: "cb_response (db_failure e db) \<noteq> RedirectTo u"
  by (simp add: db_failure_def db_handler_def)

lemma exchange_code_error:
  assumes "token_response ''error'' \<noteq> None"
  shows "\<exists>r. exchange_code (Inr token_response) t_now = Inl r \<and> is_error_page r"
  using assms by (simp add: exchange_code_def)



lemma youtube_callback_proceed:
  assumes "\<not> (get_error request \<noteq> None \<and> get_error request \<noteq> Some [])"
    and "\<not> (get_code request = None \<or> get_code request = Some [])"
  shows "youtube_callback request env db =
     (case exchange_code (token_http env) (clock env) of
           Inl r \<Rightarrow> early_exit r db
         | Inr (token, rtoken, expira) \<Rightarrow>
             let user_email = fetch_email (userinfo_http env)
             in (case fetch_channel (channels_http env) of
                   Inl r \<Rightarrow> early_exit r db
                 | Inr info \<Rightarrow>
                     store_account request (clock_stamp env) db token rtoken expira user_email info))"
  unfolding youtube_callback_def by (simp only: assms if_False simp_thms)

lemma youtube_callback_stop:
  assumes "(get_error request \<noteq> None \<and> get_error request \<noteq> Some [])
           \<or> (get_code request = None \<or> get_code request = Some [])"
  shows "is_error_page (cb_response (youtube_callback request env db))
         \<and> cb_db (youtube_callback request env db) = db"
proof (cases "get_error request \<noteq> None \<and> get_error request \<noteq> Some []")
  case True
  then show ?thesis
    unfolding youtube_callback_def
    by (simp only: if_True early_exit_fields is_error_page_ErrorPage simp_thms)
next
  case False
  with assms have c: "get_code request = None \<or> get_code request = Some []" by blast
  show ?thesis
    unfolding youtube_callback_def
    by (simp only: False c if_False if_True early_exit_fields is_error_page_ErrorPage simp_thms)
qed

lemma callback_token_error:
  assumes "token_http env = Inr token_response" and "token_response ''error'' \<noteq> None"
  shows "is_error_page (cb_response (youtube_callback request env db))
         \<and> cb_db (youtube_callback request env db) = db"
proof (cases "(get_error request \<noteq> None \<and> get_error request \<noteq> Some [])
           \<or> (get_code request = None \<or> get_code request = Some [])")
  case True
  then show ?thesis by (rule youtube_callback_stop)
next
  case False
  then have p: "youtube_callback request env db =
     (case exchange_code (token_http env) (clock env) of
           Inl r \<Rightarrow> early_exit r db
         | Inr (token, rtoken, expira) \<Rightarrow>
             let user_email = fetch_email (userinfo_http env)
             in (case fetch_channel (channels_http env) of
                   Inl r \<Rightarrow> early_exit r db
                 | Inr info \<Rightarrow>
                     store_account request (clock_stamp env) db token rtoken expira user_email info))"
    by (intro youtube_callback_proceed) blast+
  from assms(2) exchange_code_error [of token_response "clock env"] obtain r where
    r: "exchange_code (Inr token_response) (clock env) = Inl r" "is_error_page r" by blast
  with assms(1) show ?thesis
    by (simp add: p)
qed

lemma refresh_token_error:
  assumes "token_response ''error'' \<noteq> None"
  shows "\<not> rr_success (fst (refresh_youtube_token user_id (Inr token_response) t_now db))
         \<and> snd (refresh_youtube_token user_id (Inr token_response) t_now db) = db"
  using assms
  by (simp add: refresh_youtube_token_def refresh_failure_def split: sum.split)

lemma internal_token_error:
  assumes "token_response ''error'' \<noteq> None"
  shows "\<not> ir_success (fst (refresh_youtube_token_internal a (Inr token_response) t_now db))
         \<and> snd (refresh_youtube_token_internal a (Inr token_response) t_now db) = db"
  using assms
  by (simp add: refresh_youtube_token_internal_def)






lemma account_fits_tokens [simp]:
  "account_fits (a\<lparr>access_token := tok, token_expira := t\<rparr>) = account_fits a"
  by (simp add: account_fits_def)










text \<open>
  Claim C1. When the response of the token endpoint has an \<open>error\<close> key, the callback
  (for a request whose token call returned that response) answers with the error page,
  \<open>refresh_youtube_token\<close> answers with \<open>success\<close> false and
  \<open>_refresh_youtube_token_internal\<close> returns \<open>success\<close> false; each of them leaves the
  database as it was, so no account is created and no field of an account changes.
\<close>

theorem token_error_changes_nothing:
  assumes "token_response ''error'' \<noteq> None"
  shows "(token_http env = Inr token_response \<longrightarrow>
            is_error_page (cb_response (youtube_callback request env db))
            \<and> cb_db (youtube_callback request env db) = db)
       \<and> \<not> rr_success (fst (refresh_youtube_token user_id (Inr token_response) t_now db))
       \<and> snd (refresh_youtube_token user_id (Inr token_response) t_now db) = db
       \<and> \<not> ir_success (fst (refresh_youtube_token_internal account (Inr token_response) t_now db))
       \<and> snd (refresh_youtube_token_internal account (Inr token_response) t_now db) = db"
  using assms callback_token_error [of env token_response request db]
    refresh_token_error [of token_response user_id t_now db]
    internal_token_error [of token_response account t_now db]
  by blast

theorem token_error_changes_nothing_witness:
  "example_error_response ''error'' \<noteq> None
   \<and> token_http (example_env example_error_response example_channels) = Inr example_error_response
   \<and> is_error_page (cb_response (youtube_callback example_request
                        (example_env example_error_response example_channels) example_db))
   \<and> cb_db (youtube_callback example_request
              (example_env example_error_response example_channels) example_db) = example_db
   \<and> \<not> rr_success (fst (refresh_youtube_token 1 (Inr example_error_response) example_clock example_db))
   \<and> snd (refresh_youtube_token 1 (Inr example_error_response) example_clock example_db) = example_db
   \<and> \<not> ir_success (fst (refresh_youtube_token_internal example_account
                           (Inr example_error_response) example_clock example_db))
   \<and> snd (refresh_youtube_token_internal example_account
            (Inr example_error_response) example_clock example_db) = example_db"
proof -
  have e: "example_error_response ''error'' \<noteq> None"
    by (simp add: example_error_response_def)
  have h: "token_http (example_env example_error_response example_channels) = Inr example_error_response"
    by (simp add: example_env_def)
  from token_error_changes_nothing [of example_error_response
      "example_env example_error_response example_channels" example_request example_db
      1 example_clock example_account]
  show ?thesis using e h by blast
qed




text \<open>
  Claim C3. \<open>esta_autenticado\<close> is true exactly when \<open>token_expira\<close> is set and the
  current time is strictly before it; it is false whenever \<open>token_expira\<close> is null.
\<close>

theorem esta_autenticado_iff:
  "(esta_autenticado now a \<longleftrightarrow> (\<exists>t. token_expira a = Some t \<and> now < t))
   \<and> (token_expira a = None \<longrightarrow> \<not> esta_autenticado now a)"
  by (auto simp: esta_autenticado_def)

theorem esta_autenticado_iff_witness:
  "token_expira example_account = None \<and> \<not> esta_autenticado example_clock example_account"
proof -
  have h: "token_expira example_account = None"
    by (simp add: example_account_def)
  from esta_autenticado_iff [of example_clock example_account] h show ?thesis
    by blast
qed

section \<open>The template filter divide: proofs\<close>

text \<open>
  Claim C10 says that \<open>divide\<close> never raises. With the value \<open>10 ** 400\<close> and the
  argument 1 both conversions succeed and the divisor is not zero, but the quotient is
  beyond the floating-point range: the division raises \<open>OverflowError\<close>, which is none
  of the three exceptions the filter catches.
\<close>

theorem divide_filter_overflow:
  "divide_filter (PInt (10 ^ 400)) (PInt 1) = Inl OverflowError"
  by (simp add: divide_filter_def true_div_def)

section \<open>Uploads: proofs\<close>

lemma upload_error_fields [simp]:
  "up_db (upload_error st msg reauth db) = db"
  "up_thread (upload_error st msg reauth db) = None"
  "up_outcome (upload_error st msg reauth db) =
     Inr \<lparr> up_status = st, up_success = False, up_error = Some msg,
           up_needs_reauth = reauth, up_video_id = None \<rparr>"
  by (simp_all add: upload_error_def)

lemma procesar_invalid:
  assumes "ur_video_file request = Some f" and "\<not> validar_archivo_video f"
  shows "procesar_subida_ajax request env db =
     (if ur_method request \<noteq> ''POST'' then
        upload_error 405 (''M'' @ [CHR 0xE9] @ ''todo no permitido'') False db
      else
        case objects_get (\<lambda>a. ya_user a = ur_user request) (accounts db) of
          Inl e \<Rightarrow>
            if e = DoesNotExist then upload_error 400 ''Cuenta no vinculada'' False db
            else \<lparr> up_outcome = Inl e, up_db = db, up_thread = None \<rparr>
        | Inr youtube_account \<Rightarrow>
            if \<not> esta_autenticado (re_now env) youtube_account then
              upload_error 401 ''Token expirado'' True db
            else upload_error 400 (''Archivo no v'' @ [CHR 0xE1] @ ''lido'') False db)"
  unfolding procesar_subida_ajax_def
  by (simp only: assms option.case if_True simp_thms)





text \<open>
  Claim C7. \<open>_validar_archivo_video\<close> accepts a file exactly when its size is at most
  \<open>128 * 1024 * 1024\<close> bytes and the lower-cased extension of its name is one of
  \<open>.mp4\<close>, \<open>.mov\<close>, \<open>.avi\<close>, \<open>.wmv\<close>, \<open>.flv\<close>, \<open>.webm\<close>. For a request with a file
  it rejects, \<open>procesar_subida_ajax\<close> creates no \<open>VideoSubido\<close> row and starts no
  upload; when the request reaches the validation (a POST of a user whose account is
  linked and whose token is valid) the answer is the error \<open>Archivo no valido\<close> with
  status 400.
\<close>

theorem validar_archivo_video_rejects:
  "(validar_archivo_video f \<longleftrightarrow>
      uf_size f \<le> 128 * 1024 * 1024
      \<and> map lower_char (snd (splitext (uf_name f)))
          \<in> set [''.mp4'', ''.mov'', ''.avi'', ''.wmv'', ''.flv'', ''.webm''])
   \<and> (ur_video_file request = Some f \<and> \<not> validar_archivo_video f \<longrightarrow>
        up_db (procesar_subida_ajax request env db) = db
        \<and> up_thread (procesar_subida_ajax request env db) = None
        \<and> (ur_method request = ''POST''
            \<and> objects_get (\<lambda>a. ya_user a = ur_user request) (accounts db) = Inr account
            \<and> esta_autenticado (re_now env) account \<longrightarrow>
             up_outcome (procesar_subida_ajax request env db) =
               Inr \<lparr> up_status = 400, up_success = False,
                     up_error = Some (''Archivo no v'' @ [CHR 0xE1] @ ''lido''),
                     up_needs_reauth = False, up_video_id = None \<rparr>))"
proof (intro conjI impI)
  show "validar_archivo_video f \<longleftrightarrow>
      uf_size f \<le> 128 * 1024 * 1024
      \<and> map lower_char (snd (splitext (uf_name f)))
          \<in> set [''.mp4'', ''.mov'', ''.avi'', ''.wmv'', ''.flv'', ''.webm'']"
    unfolding validar_archivo_video_def allowed_extensions_def Let_def
    by (simp only: not_less if_not_P if_P split: if_split) auto
next
  assume a: "ur_video_file request = Some f \<and> \<not> validar_archivo_video f"
  then have r: "procesar_subida_ajax request env db =
     (if ur_method request \<noteq> ''POST'' then
        upload_error 405 (''M'' @ [CHR 0xE9] @ ''todo no permitido'') False db
      else
        case objects_get (\<lambda>a. ya_user a = ur_user request) (accounts db) of
          Inl e \<Rightarrow>
            if e = DoesNotExist then upload_error 400 ''Cuenta no vinculada'' False db
            else \<lparr> up_outcome = Inl e, up_db = db, up_thread = None \<rparr>
        | Inr youtube_account \<Rightarrow>
            if \<not> esta_autenticado (re_now env) youtube_account then
              upload_error 401 ''Token expirado'' True db
            else upload_error 400 (''Archivo no v'' @ [CHR 0xE1] @ ''lido'') False db)"
    by (intro procesar_invalid) blast+
  show "up_db (procesar_subida_ajax request env db) = db"
    unfolding r by (simp split: sum.split)
  show "up_thread (procesar_subida_ajax request env db) = None"
    unfolding r by (simp split: sum.split)
  assume "ur_method request = ''POST''
            \<and> objects_get (\<lambda>a. ya_user a = ur_user request) (accounts db) = Inr account
            \<and> esta_autenticado (re_now env) account"
  then show "up_outcome (procesar_subida_ajax request env db) =
               Inr \<lparr> up_status = 400, up_success = False,
                     up_error = Some (''Archivo no v'' @ [CHR 0xE1] @ ''lido''),
                     up_needs_reauth = False, up_video_id = None \<rparr>"
    unfolding r by simp
qed

theorem validar_archivo_video_rejects_witness:
  "ur_video_file (example_upload_request \<lparr>uf_name = ''notes.txt'', uf_size = 10\<rparr>)
     = Some \<lparr>uf_name = ''notes.txt'', uf_size = 10\<rparr>
   \<and> \<not> validar_archivo_video \<lparr>uf_name = ''notes.txt'', uf_size = 10\<rparr>
   \<and> ur_method (example_upload_request \<lparr>uf_name = ''notes.txt'', uf_size = 10\<rparr>) = ''POST''
   \<and> objects_get (\<lambda>a. ya_user a = ur_user (example_upload_request \<lparr>uf_name = ''notes.txt'', uf_size = 10\<rparr>))
        (accounts example_valid_db) = Inr example_valid_account
   \<and> esta_autenticado (re_now example_request_env) example_valid_account
   \<and> up_db (procesar_subida_ajax (example_upload_request \<lparr>uf_name = ''notes.txt'', uf_size = 10\<rparr>)
              example_request_env example_valid_db) = example_valid_db
   \<and> up_outcome (procesar_subida_ajax (example_upload_request \<lparr>uf_name = ''notes.txt'', uf_size = 10\<rparr>)
                   example_request_env example_valid_db) =
        Inr \<lparr> up_status = 400, up_success = False,
              up_error = Some (''Archivo no v'' @ [CHR 0xE1] @ ''lido''),
              up_needs_reauth = False, up_video_id = None \<rparr>
   \<and> validar_archivo_video \<lparr>uf_name = ''Clip.MP4'', uf_size = 128 * 1024 * 1024\<rparr>"
proof -
  let ?f = "\<lparr>uf_name = ''notes.txt'', uf_size = 10\<rparr>"
  let ?g = "\<lparr>uf_name = ''Clip.MP4'', uf_size = 128 * 1024 * 1024\<rparr>"
  let ?rq = "example_upload_request ?f"
  have h1: "ur_video_file ?rq = Some ?f" by (simp add: example_upload_request_def)
  have h2: "\<not> validar_archivo_video ?f" by code_simp
  have h3: "ur_method ?rq = ''POST''" by (simp add: example_upload_request_def)
  have h4: "objects_get (\<lambda>a. ya_user a = ur_user ?rq) (accounts example_valid_db) = Inr example_valid_account"
    by code_simp
  have h5: "esta_autenticado (re_now example_request_env) example_valid_account"
    by code_simp
  have g1: "uf_size ?g \<le> 128 * 1024 * 1024
      \<and> map lower_char (snd (splitext (uf_name ?g)))
          \<in> set [''.mp4'', ''.mov'', ''.avi'', ''.wmv'', ''.flv'', ''.webm'']"
    by code_simp
  note w = validar_archivo_video_rejects [of ?f ?rq example_request_env example_valid_db example_valid_account]
  note wg = validar_archivo_video_rejects [of ?g ?rq example_request_env example_valid_db example_valid_account]
  from w h1 h2 have c1: "up_db (procesar_subida_ajax ?rq example_request_env example_valid_db) = example_valid_db"
    by blast
  from w h1 h2 h3 h4 h5 have c2: "up_outcome (procesar_subida_ajax ?rq example_request_env example_valid_db) =
        Inr \<lparr> up_status = 400, up_success = False,
              up_error = Some (''Archivo no v'' @ [CHR 0xE1] @ ''lido''),
              up_needs_reauth = False, up_video_id = None \<rparr>"
    by blast
  from wg g1 have c3: "validar_archivo_video ?g" by blast
  from h1 h2 h3 h4 h5 c1 c2 c3 show ?thesis by (intro conjI)
qed



section \<open>Saved videos: proofs\<close>

lemma guardar_error_fields [simp]:
  "snd (guardar_error st err db) = db"
  "gr_status (fst (guardar_error st err db)) = st"
  "gr_success (fst (guardar_error st err db)) = False"
  "gr_error (fst (guardar_error st err db)) = Some err"
  by (simp_all add: guardar_error_def)

lemma create_video_guardado_key:
  assumes "create_video_guardado new_id vid user_id info = Inr row"
  shows "video_id row = py_str vid" and "usuario row = user_id"
  using assms by (auto simp: create_video_guardado_def split: if_splits)

lemma create_video_guardado_fits:
  "(\<exists>row. create_video_guardado new_id vid user_id info = Inr row) \<longleftrightarrow>
     int64 (vinfo_vistas info) \<and> int64 (vinfo_likes info) \<and> int64 (vinfo_comentarios info)"
  by (simp add: create_video_guardado_def)

lemma create_video_guardado_Inl:
  "create_video_guardado new_id vid user_id info = Inl e \<Longrightarrow> e = OverflowError"
  by (simp add: create_video_guardado_def split: if_splits)

lemma saved_copies_zero:
  "saved_copies vid user_id db = 0 \<longleftrightarrow>
     \<not> list_ex (\<lambda>v. video_id v = vid \<and> usuario v = user_id) (videos_guardados db)"
  by (auto simp: saved_copies_def list_ex_iff filter_empty_conv)

lemma at_most_one_append:
  assumes "at_most_one db"
    and "\<not> list_ex (\<lambda>v. video_id v = video_id row \<and> usuario v = usuario row) (videos_guardados db)"
  shows "at_most_one (db\<lparr>videos_guardados := videos_guardados db @ [row]\<rparr>)"
  using assms by (auto simp: at_most_one_def list_ex_iff)

lemma saved_copies_append:
  assumes "saved_copies (video_id row) (usuario row) db = 0"
  shows "saved_copies (video_id row) (usuario row)
           (db\<lparr>videos_guardados := videos_guardados db @ [row]\<rparr>) = 1"
  using assms by (simp add: saved_copies_def)

lemma guardar_post:
  assumes "gr_method request = ''POST''" and "gr_body request = Inr data"
    and "truthy (dict_get data ''video_id'' PNone)"
  shows "guardar_video_busqueda request env db =
     (if list_ex (\<lambda>v. video_id v = py_str (dict_get data ''video_id'' PNone) \<and> usuario v = gr_user request)
                         (videos_guardados db)
      then guardar_error 200 (Lit ''Ya tienes este video guardado'') db
      else
        (case obtener_info_video_youtube (dict_get data ''video_id'' PNone) (gr_user request) env db of
           Inl e \<Rightarrow> guardar_error 500 (StrOf ''Error al guardar video: '' e) db
         | Inr video_info \<Rightarrow>
             (case create_video_guardado (fresh_id (map vg_id (videos_guardados db)))
                     (dict_get data ''video_id'' PNone) (gr_user request) video_info of
                Inl e \<Rightarrow> guardar_error 500 (StrOf ''Error al guardar video: '' e) db
              | Inr video_guardado \<Rightarrow>
                  (\<lparr> gr_status = 200, gr_success = True, gr_error = None,
                     gr_id = Some (fresh_id (map vg_id (videos_guardados db))) \<rparr>,
                   db\<lparr>videos_guardados := videos_guardados db @ [video_guardado]\<rparr>))))"
  unfolding guardar_video_busqueda_def
  by (simp only: assms sum.case Let_def if_False if_True simp_thms)

lemma guardar_keeps_or_appends:
  "snd (guardar_video_busqueda request env db) = db
   \<or> (\<exists>row. \<not> list_ex (\<lambda>v. video_id v = video_id row \<and> usuario v = usuario row) (videos_guardados db)
        \<and> snd (guardar_video_busqueda request env db)
            = db\<lparr>videos_guardados := videos_guardados db @ [row]\<rparr>)"
proof (cases "gr_method request = ''POST''")
  case False
  then show ?thesis by (simp add: guardar_video_busqueda_def)
next
  case post: True
  show ?thesis
  proof (cases "gr_body request")
    case (Inl e)
    with post show ?thesis by (simp add: guardar_video_busqueda_def)
  next
    case (Inr data)
    show ?thesis
    proof (cases "truthy (dict_get data ''video_id'' PNone)")
      case False
      with post Inr show ?thesis by (simp add: guardar_video_busqueda_def)
    next
      case True
      note r = guardar_post [OF post Inr True, of env db]
      show ?thesis
      proof (cases "list_ex (\<lambda>v. video_id v = py_str (dict_get data ''video_id'' PNone)
                       \<and> usuario v = gr_user request) (videos_guardados db)")
        case ex: True
        then show ?thesis unfolding r by simp
      next
        case nex: False
        show ?thesis
        proof (cases "obtener_info_video_youtube (dict_get data ''video_id'' PNone) (gr_user request) env db")
          case (Inl e)
          with nex show ?thesis unfolding r by simp
        next
          case info: (Inr info)
          show ?thesis
          proof (cases "create_video_guardado (fresh_id (map vg_id (videos_guardados db)))
                          (dict_get data ''video_id'' PNone) (gr_user request) info")
            case (Inl e)
            with nex info show ?thesis unfolding r by simp
          next
            case (Inr row)
            then have k: "video_id row = py_str (dict_get data ''video_id'' PNone)"
              "usuario row = gr_user request"
              by (rule create_video_guardado_key)+
            from nex have "\<not> list_ex (\<lambda>v. video_id v = video_id row \<and> usuario v = usuario row)
                              (videos_guardados db)"
              by (simp only: k simp_thms)
            moreover from nex info Inr have "snd (guardar_video_busqueda request env db)
              = db\<lparr>videos_guardados := videos_guardados db @ [row]\<rparr>"
              unfolding r by simp
            ultimately show ?thesis by blast
          qed
        qed
      qed
    qed
  qed
qed

text \<open>
  The constraint \<open>unique_together\<close> is kept by every request: the view leaves the
  table as it was or adds one row for a pair that has none.
\<close>

lemma guardar_at_most_one:
  assumes "at_most_one db"
  shows "at_most_one (snd (guardar_video_busqueda request env db))"
  using guardar_keeps_or_appends [of request env db] assms
  by (auto intro: at_most_one_append)

text \<open>
  A POST whose body gives a video id. When the user already has a row for the video,
  the answer has \<open>success\<close> false with the error \<open>Ya tienes este video guardado\<close> and
  the table is unchanged. When the user has none, one row is added, the only one of the
  user for the video, provided \<open>_obtener_info_video_youtube\<close> returns and the counts it
  returns fit their columns; otherwise the answer has status 500 and \<open>success\<close> false
  and the table is unchanged.
\<close>

lemma guardar_video_busqueda_cases:
  assumes "gr_method request = ''POST''" and "gr_body request = Inr data"
    and "dict_get data ''video_id'' PNone = vid" and "truthy vid"
  shows "(0 < saved_copies (py_str vid) (gr_user request) db \<longrightarrow>
             \<not> gr_success (fst (guardar_video_busqueda request env db))
             \<and> gr_error (fst (guardar_video_busqueda request env db))
                 = Some (Lit ''Ya tienes este video guardado'')
             \<and> snd (guardar_video_busqueda request env db) = db)
        \<and> (saved_copies (py_str vid) (gr_user request) db = 0 \<longrightarrow>
             (case obtener_info_video_youtube vid (gr_user request) env db of
                Inr video_info \<Rightarrow>
                  if int64 (vinfo_vistas video_info) \<and> int64 (vinfo_likes video_info)
                     \<and> int64 (vinfo_comentarios video_info)
                  then gr_success (fst (guardar_video_busqueda request env db))
                       \<and> saved_copies (py_str vid) (gr_user request)
                            (snd (guardar_video_busqueda request env db)) = 1
                       \<and> length (videos_guardados (snd (guardar_video_busqueda request env db)))
                           = Suc (length (videos_guardados db))
                  else gr_status (fst (guardar_video_busqueda request env db)) = 500
                       \<and> \<not> gr_success (fst (guardar_video_busqueda request env db))
                       \<and> snd (guardar_video_busqueda request env db) = db
              | Inl e \<Rightarrow>
                  gr_status (fst (guardar_video_busqueda request env db)) = 500
                  \<and> \<not> gr_success (fst (guardar_video_busqueda request env db))
                  \<and> snd (guardar_video_busqueda request env db) = db))"
proof (intro conjI impI)
  let ?new = "fresh_id (map vg_id (videos_guardados db))"
  have r: "guardar_video_busqueda request env db =
     (if list_ex (\<lambda>v. video_id v = py_str vid \<and> usuario v = gr_user request) (videos_guardados db)
      then guardar_error 200 (Lit ''Ya tienes este video guardado'') db
      else
        (case obtener_info_video_youtube vid (gr_user request) env db of
           Inl e \<Rightarrow> guardar_error 500 (StrOf ''Error al guardar video: '' e) db
         | Inr video_info \<Rightarrow>
             (case create_video_guardado ?new vid (gr_user request) video_info of
                Inl e \<Rightarrow> guardar_error 500 (StrOf ''Error al guardar video: '' e) db
              | Inr video_guardado \<Rightarrow>
                  (\<lparr> gr_status = 200, gr_success = True, gr_error = None, gr_id = Some ?new \<rparr>,
                   db\<lparr>videos_guardados := videos_guardados db @ [video_guardado]\<rparr>))))"
    using assms guardar_post [of request data env db] by auto
  {
    assume "0 < saved_copies (py_str vid) (gr_user request) db"
    then have ex: "list_ex (\<lambda>v. video_id v = py_str vid \<and> usuario v = gr_user request) (videos_guardados db)"
      using saved_copies_zero [of "py_str vid" "gr_user request" db] by simp
    show "\<not> gr_success (fst (guardar_video_busqueda request env db))"
      unfolding r using ex by simp
    show "gr_error (fst (guardar_video_busqueda request env db))
                 = Some (Lit ''Ya tienes este video guardado'')"
      unfolding r using ex by simp
    show "snd (guardar_video_busqueda request env db) = db"
      unfolding r using ex by simp
  }
  {
    assume z: "saved_copies (py_str vid) (gr_user request) db = 0"
    then have nex: "\<not> list_ex (\<lambda>v. video_id v = py_str vid \<and> usuario v = gr_user request) (videos_guardados db)"
      by (simp add: saved_copies_zero)
    show "case obtener_info_video_youtube vid (gr_user request) env db of
                Inr video_info \<Rightarrow>
                  if int64 (vinfo_vistas video_info) \<and> int64 (vinfo_likes video_info)
                     \<and> int64 (vinfo_comentarios video_info)
                  then gr_success (fst (guardar_video_busqueda request env db))
                       \<and> saved_copies (py_str vid) (gr_user request)
                            (snd (guardar_video_busqueda request env db)) = 1
                       \<and> length (videos_guardados (snd (guardar_video_busqueda request env db)))
                           = Suc (length (videos_guardados db))
                  else gr_status (fst (guardar_video_busqueda request env db)) = 500
                       \<and> \<not> gr_success (fst (guardar_video_busqueda request env db))
                       \<and> snd (guardar_video_busqueda request env db) = db
              | Inl e \<Rightarrow>
                  gr_status (fst (guardar_video_busqueda request env db)) = 500
                  \<and> \<not> gr_success (fst (guardar_video_busqueda request env db))
                  \<and> snd (guardar_video_busqueda request env db) = db"
    proof (cases "obtener_info_video_youtube vid (gr_user request) env db")
      case (Inl e)
      with nex show ?thesis unfolding r by simp
    next
      case info: (Inr info)
      show ?thesis
      proof (cases "create_video_guardado ?new vid (gr_user request) info")
        case (Inl e)
        then have "\<not> (int64 (vinfo_vistas info) \<and> int64 (vinfo_likes info)
                       \<and> int64 (vinfo_comentarios info))"
          using create_video_guardado_fits [of ?new vid "gr_user request" info] by simp
        with Inl info nex show ?thesis unfolding r by simp
      next
        case (Inr row)
        then have f: "int64 (vinfo_vistas info) \<and> int64 (vinfo_likes info)
                       \<and> int64 (vinfo_comentarios info)"
          using create_video_guardado_fits [of ?new vid "gr_user request" info] by blast
        from Inr have k: "video_id row = py_str vid" "usuario row = gr_user request"
          by (rule create_video_guardado_key)+
        from z have "saved_copies (video_id row) (usuario row) db = 0" by (simp only: k simp_thms)
        then have "saved_copies (video_id row) (usuario row)
             (db\<lparr>videos_guardados := videos_guardados db @ [row]\<rparr>) = 1"
          by (rule saved_copies_append)
        then have "saved_copies (py_str vid) (gr_user request)
             (db\<lparr>videos_guardados := videos_guardados db @ [row]\<rparr>) = 1"
          by (simp only: k simp_thms)
        with Inr info nex f show ?thesis unfolding r by simp
      qed
    qed
  }
qed

text \<open>
  Claim C6 says that a row is created whenever the user has none for the video and a
  video id was supplied. Here the request is a POST with a video id, the user has a
  valid token and no row for the video, and the request to the API times out. The
  exception leaves \<open>_obtener_info_video_youtube\<close>, which catches only the missing
  account although its comment has the minimal information used after a failure; the
  view answers with status 500 and \<open>success\<close> false, and no row is created.
\<close>

theorem guardar_video_busqueda_timeout:
  "gr_method example_guardar_request = ''POST''
   \<and> saved_copies ''dQw4w9WgXcQ'' 1 example_valid_db = 0
   \<and> obtener_info_video_youtube (PStr ''dQw4w9WgXcQ'') 1 (example_guardar_env (Inl Timeout))
        example_valid_db = Inl Timeout
   \<and> gr_status (fst (guardar_video_busqueda example_guardar_request
                        (example_guardar_env (Inl Timeout)) example_valid_db)) = 500
   \<and> gr_success (fst (guardar_video_busqueda example_guardar_request
                         (example_guardar_env (Inl Timeout)) example_valid_db)) = False
   \<and> saved_copies ''dQw4w9WgXcQ'' 1
        (snd (guardar_video_busqueda example_guardar_request
                (example_guardar_env (Inl Timeout)) example_valid_db)) = 0"
  by code_simp

end
